theory Spec2Isabelle
  imports Main "HOL-Library.Word"
begin

unbundle bit_operations_syntax

section \<open>Data model\<close>

type_synonym u8 = "8 word"
type_synonym u16 = "16 word"
type_synonym u32 = "32 word"
type_synonym i64 = "64 word"

text \<open>\<^verbatim>\<open>syscall.Handle\<close> and \<^verbatim>\<open>syscall.Errno\<close> are both \<^verbatim>\<open>uintptr\<close>; the
  program only stores, passes on and compares them, so they are natural numbers here.\<close>

type_synonym Handle = nat
type_synonym Errno = nat

definition ERROR_FILE_NOT_FOUND :: Errno where
  "ERROR_FILE_NOT_FOUND = 2"

definition ERROR_ACCESS_DENIED :: Errno where
  "ERROR_ACCESS_DENIED = 5"

definition EINVAL :: Errno where
  "EINVAL = 536870951"

definition GENERIC_READ :: u32 where
  "GENERIC_READ = 0x80000000"

definition GENERIC_WRITE :: u32 where
  "GENERIC_WRITE = 0x40000000"

definition OPEN_EXISTING :: u32 where
  "OPEN_EXISTING = 3"

definition HKEY_LOCAL_MACHINE :: Handle where
  "HKEY_LOCAL_MACHINE = 0x80000002"

definition KEY_READ :: u32 where
  "KEY_READ = 0x20019"

text \<open>The type that implements the port: a single field, the native handle.\<close>

record SerialPort =
  handle :: Handle

text \<open>Modelled from the spec: the declaration of \<^verbatim>\<open>SerialPortError\<close> and of its
  codes is in another file of the package. This file uses four codes, which are four
  distinct error kinds of the spec (its section 7); they keep the names the code gives
  them. A Go \<^verbatim>\<open>error\<close> returned by this file is either a \<^verbatim>\<open>*SerialPortError\<close> with one
  of these codes or a raw \<^verbatim>\<open>syscall.Errno\<close>.\<close>

datatype error_code =
    ERROR_PORT_BUSY
  | ERROR_PORT_NOT_FOUND
  | ERROR_INVALID_SERIAL_PORT
  | ERROR_ENUMERATING_PORTS

datatype error =
    SerialPortError error_code
  | RawErrno Errno

text \<open>The flag constants of the control record (lines 113-132).\<close>

definition DCB_BINARY :: u32 where "DCB_BINARY = 0x00000001"
definition DCB_PARITY :: u32 where "DCB_PARITY = 0x00000002"
definition DCB_OUT_X_CTS_FLOW :: u32 where "DCB_OUT_X_CTS_FLOW = 0x00000004"
definition DCB_OUT_X_DSR_FLOW :: u32 where "DCB_OUT_X_DSR_FLOW = 0x00000008"
definition DCB_DTR_CONTROL_DISABLE_MASK :: u32 where "DCB_DTR_CONTROL_DISABLE_MASK = NOT 0x00000030"
definition DCB_DTR_CONTROL_ENABLE :: u32 where "DCB_DTR_CONTROL_ENABLE = 0x00000010"
definition DCB_DTR_CONTROL_HANDSHAKE :: u32 where "DCB_DTR_CONTROL_HANDSHAKE = 0x00000020"
definition DCB_DSR_SENSITIVITY :: u32 where "DCB_DSR_SENSITIVITY = 0x00000040"
definition DCB_TX_CONTINUE_ON_XOFF :: u32 where "DCB_TX_CONTINUE_ON_XOFF = 0x00000080"
definition DCB_OUT_X :: u32 where "DCB_OUT_X = 0x00000100"
definition DCB_IN_X :: u32 where "DCB_IN_X = 0x00000200"
definition DCB_ERROR_CHAR :: u32 where "DCB_ERROR_CHAR = 0x00000400"
definition DCB_NULL :: u32 where "DCB_NULL = 0x00000800"
definition DCB_RTS_CONTROL_DISABLE_MASK :: u32 where "DCB_RTS_CONTROL_DISABLE_MASK = NOT 0x00003000"
definition DCB_RTS_CONTROL_ENABLE :: u32 where "DCB_RTS_CONTROL_ENABLE = 0x00001000"
definition DCB_RTS_CONTROL_HANDSHAKE :: u32 where "DCB_RTS_CONTROL_HANDSHAKE = 0x00002000"
definition DCB_RTS_CONTROL_TOGGLE :: u32 where "DCB_RTS_CONTROL_TOGGLE = 0x00003000"
definition DCB_ABORT_ON_ERROR :: u32 where "DCB_ABORT_ON_ERROR = 0x00004000"

record DCB =
  DCBlength :: u32
  BaudRate :: u32
  Flags :: u32
  wReserved :: u16
  XonLim :: u16
  XoffLim :: u16
  ByteSize :: u8
  Parity :: u8
  StopBits :: u8
  XonChar :: u8
  XoffChar :: u8
  ErrorChar :: u8
  EofChar :: u8
  EvtChar :: u8
  wReserved1 :: u16

text \<open>The composite literal \<^verbatim>\<open>DCB{}\<close>: every field zero.\<close>

definition DCB_zero :: DCB where
  "DCB_zero = \<lparr>DCBlength = 0, BaudRate = 0, Flags = 0, wReserved = 0, XonLim = 0,
     XoffLim = 0, ByteSize = 0, Parity = 0, StopBits = 0, XonChar = 0, XoffChar = 0,
     ErrorChar = 0, EofChar = 0, EvtChar = 0, wReserved1 = 0\<rparr>"

record COMMTIMEOUTS =
  ReadIntervalTimeout :: u32
  ReadTotalTimeoutMultiplier :: u32
  ReadTotalTimeoutConstant :: u32
  WriteTotalTimeoutMultiplier :: u32
  WriteTotalTimeoutConstant :: u32

text \<open>Modelled from the spec: the declaration of \<^verbatim>\<open>Mode\<close> is in another file of the
  package. The spec gives it four integer attributes (baud rate, data bits, parity code,
  stop-bit code); this file converts them with \<^verbatim>\<open>uint32(...)\<close> and \<^verbatim>\<open>byte(...)\<close>, so
  they are Go integers, modelled as \<open>int\<close>. The fields carry the prefix \<open>m\<close> because the
  control record has fields of the same names.\<close>

record Mode =
  mBaudRate :: int
  mDataBits :: int
  mParity :: int
  mStopBits :: int

section \<open>The platform\<close>

text \<open>Every call that leaves the package (the \<^verbatim>\<open>syscall\<close> functions, the
  \<^verbatim>\<open>//sys\<close> stubs and \<^verbatim>\<open>time.Sleep\<close>) is a field of this record: a function of
  the call's inputs and the state \<open>'w\<close> of the world, returning what the call writes
  through its pointers, its error (\<open>None\<close> is \<^verbatim>\<open>nil\<close>) and the next state of the
  world. Nothing is assumed about the platform: the theorems hold for every value of this
  record.

  \<^item> \<open>CreateFile path access sharemode createmode attrs\<close> returns the error or the handle;
  \<^item> \<open>ReadFile h p\<close> returns the contents of the buffer \<open>p\<close> after the call, the count
    written to \<^verbatim>\<open>*done\<close> and the error;
  \<^item> \<open>GetCommState h dcb\<close> takes the contents of \<^verbatim>\<open>*dcb\<close> before the call and returns
    its contents after the call;
  \<^item> \<open>RegEnumValue h index\<close> returns what the call writes to the data buffer (the
    program never reads the name buffer nor the two sizes it gets back);
  \<^item> \<open>Sleep d\<close> takes a \<^verbatim>\<open>time.Duration\<close>, a signed 64-bit count of nanoseconds.\<close>

record 'w os =
  CreateFile :: "string \<Rightarrow> u32 \<Rightarrow> u32 \<Rightarrow> u32 \<Rightarrow> u32 \<Rightarrow> 'w \<Rightarrow> (Errno + Handle) \<times> 'w"
  CloseHandle :: "Handle \<Rightarrow> 'w \<Rightarrow> Errno option \<times> 'w"
  ReadFile :: "Handle \<Rightarrow> u8 list \<Rightarrow> 'w \<Rightarrow> (u8 list \<times> u32 \<times> Errno option) \<times> 'w"
  WriteFile :: "Handle \<Rightarrow> u8 list \<Rightarrow> 'w \<Rightarrow> (u32 \<times> Errno option) \<times> 'w"
  GetCommState :: "Handle \<Rightarrow> DCB \<Rightarrow> 'w \<Rightarrow> (DCB \<times> Errno option) \<times> 'w"
  SetCommState :: "Handle \<Rightarrow> DCB \<Rightarrow> 'w \<Rightarrow> Errno option \<times> 'w"
  SetCommTimeouts :: "Handle \<Rightarrow> COMMTIMEOUTS \<Rightarrow> 'w \<Rightarrow> Errno option \<times> 'w"
  SetCommBreak :: "Handle \<Rightarrow> 'w \<Rightarrow> Errno option \<times> 'w"
  ClearCommBreak :: "Handle \<Rightarrow> 'w \<Rightarrow> Errno option \<times> 'w"
  Sleep :: "i64 \<Rightarrow> 'w \<Rightarrow> 'w"
  RegOpenKeyEx :: "Handle \<Rightarrow> string \<Rightarrow> u32 \<Rightarrow> u32 \<Rightarrow> 'w \<Rightarrow> (Handle \<times> Errno option) \<times> 'w"
  RegQueryInfoKey :: "Handle \<Rightarrow> 'w \<Rightarrow> (u32 \<times> Errno option) \<times> 'w"
  RegEnumValue :: "Handle \<Rightarrow> u32 \<Rightarrow> 'w \<Rightarrow> (u16 list \<times> Errno option) \<times> 'w"
  RegCloseKey :: "Handle \<Rightarrow> 'w \<Rightarrow> Errno option \<times> 'w"

text \<open>\<^verbatim>\<open>syscall.UTF16PtrFromString\<close> fails with \<^verbatim>\<open>EINVAL\<close> when the string holds a
  NUL byte; the pointer it returns otherwise stands for the string itself.\<close>

definition UTF16PtrFromString :: "string \<Rightarrow> Errno + string" where
  "UTF16PtrFromString s = (if CHR 0x00 \<in> set s then Inl EINVAL else Inr s)"

text \<open>\<^verbatim>\<open>syscall.UTF16ToString\<close> reads the code units before the first NUL. The
  re-encoding of these units into a Go string is not modelled: a name is its list of
  UTF-16 code units.\<close>

definition UTF16ToString :: "u16 list \<Rightarrow> u16 list" where
  "UTF16ToString s = takeWhile (\<lambda>c. c \<noteq> 0) s"

text \<open>A zeroed array \<^verbatim>\<open>[1024]uint16\<close> after a call has written \<open>written\<close> from its
  start.\<close>

definition buffer1024 :: "u16 list \<Rightarrow> u16 list" where
  "buffer1024 written = take 1024 written @ replicate (1024 - length written) 0"

text \<open>\<^verbatim>\<open>int(readed)\<close>: the count of a transfer as a Go \<^verbatim>\<open>int\<close>. The conversion is
  exact where \<^verbatim>\<open>int\<close> has 64 bits; where it has 32, a count is at most the length of
  the buffer, which fits.\<close>

definition int_of_u32 :: "u32 \<Rightarrow> int" where
  "int_of_u32 n = uint n"

definition Millisecond :: i64 where
  "Millisecond = 1000000"

section \<open>The operations\<close>

definition backslash :: char where
  "backslash = CHR 0x5C"

text \<open>The first statement of \<^verbatim>\<open>OpenPort\<close>: the device path of a port name.\<close>

definition device_path :: "string \<Rightarrow> string" where
  "device_path portName = [backslash, backslash, CHR ''.'', backslash] @ portName"

definition Close :: "'w os \<Rightarrow> SerialPort \<Rightarrow> 'w \<Rightarrow> error option \<times> 'w" where
  "Close os port w =
     (case CloseHandle os (handle port) w of (e, w') \<Rightarrow> (map_option RawErrno e, w'))"

text \<open>The loop of \<^verbatim>\<open>Read\<close>. It may run forever (an idle line on a live device), so it
  is a partial function: \<open>None\<close> is the run that never returns. \<open>params\<close> is the local
  control record, which lives across the iterations.\<close>

partial_function (option) Read_loop ::
  "'w os \<Rightarrow> SerialPort \<Rightarrow> u8 list \<Rightarrow> DCB \<Rightarrow> 'w \<Rightarrow> ((u8 list \<times> int \<times> error option) \<times> 'w) option"
where
  "Read_loop os port p params w =
     (case ReadFile os (handle port) p w of
        ((p', readed, Some err), w1) \<Rightarrow> Some ((p', int_of_u32 readed, Some (RawErrno err)), w1)
      | ((p', readed, None), w1) \<Rightarrow>
          if readed > 0 then Some ((p', int_of_u32 readed, None), w1)
          else
            (case GetCommState os (handle port) params w1 of
               ((params', _), w2) \<Rightarrow>
                 (case SetCommState os (handle port) params' w2 of
                    (Some err, w3) \<Rightarrow>
                      (case Close os port w3 of
                         (_, w4) \<Rightarrow> Some ((p', 0, Some (RawErrno err)), w4))
                  | (None, w3) \<Rightarrow> Read_loop os port p' params' w3)))"

declare Read_loop.simps [code]

definition Read ::
  "'w os \<Rightarrow> SerialPort \<Rightarrow> u8 list \<Rightarrow> 'w \<Rightarrow> ((u8 list \<times> int \<times> error option) \<times> 'w) option"
where
  "Read os port p w = Read_loop os port p DCB_zero w"

definition Write ::
  "'w os \<Rightarrow> SerialPort \<Rightarrow> u8 list \<Rightarrow> 'w \<Rightarrow> (int \<times> error option) \<times> 'w"
where
  "Write os port p w =
     (case WriteFile os (handle port) p w of
        ((writed, err), w') \<Rightarrow> ((int_of_u32 writed, map_option RawErrno err), w'))"

definition SendBreak :: "'w os \<Rightarrow> SerialPort \<Rightarrow> int \<Rightarrow> 'w \<Rightarrow> error option \<times> 'w" where
  "SendBreak os port breakTime w =
     (case SetCommBreak os (handle port) w of
        (Some _, w1) \<Rightarrow>
          (case Close os port w1 of
             (_, w2) \<Rightarrow> (Some (SerialPortError ERROR_INVALID_SERIAL_PORT), w2))
      | (None, w1) \<Rightarrow>
          (case ClearCommBreak os (handle port)
                  (Sleep os (word_of_int breakTime * Millisecond) w1) of
             (Some _, w3) \<Rightarrow>
               (case Close os port w3 of
                  (_, w4) \<Rightarrow> (Some (SerialPortError ERROR_INVALID_SERIAL_PORT), w4))
           | (None, w3) \<Rightarrow> (None, w3)))"

definition SetMode :: "'w os \<Rightarrow> SerialPort \<Rightarrow> Mode \<Rightarrow> 'w \<Rightarrow> error option \<times> 'w" where
  "SetMode os port mode w =
     (case GetCommState os (handle port) DCB_zero w of
        ((params, Some _), w1) \<Rightarrow>
          (case Close os port w1 of
             (_, w2) \<Rightarrow> (Some (SerialPortError ERROR_INVALID_SERIAL_PORT), w2))
      | ((params, None), w1) \<Rightarrow>
          (let params = (if mBaudRate mode = 0 then params\<lparr>BaudRate := 9600\<rparr>
                         else params\<lparr>BaudRate := word_of_int (mBaudRate mode)\<rparr>);
               params = (if mDataBits mode = 0 then params\<lparr>ByteSize := 8\<rparr>
                         else params\<lparr>ByteSize := word_of_int (mDataBits mode)\<rparr>);
               params = params\<lparr>StopBits := word_of_int (mStopBits mode)\<rparr>;
               params = params\<lparr>Parity := word_of_int (mParity mode)\<rparr>
           in case SetCommState os (handle port) params w1 of
                (Some _, w2) \<Rightarrow>
                  (case Close os port w2 of
                     (_, w3) \<Rightarrow> (Some (SerialPortError ERROR_INVALID_SERIAL_PORT), w3))
              | (None, w2) \<Rightarrow> (None, w2)))"

text \<open>The fixed policy that \<^verbatim>\<open>OpenPort\<close> lays over the control record it fetched
  (lines 260-272), statement by statement.\<close>

definition open_overlay :: "DCB \<Rightarrow> DCB" where
  "open_overlay params0 =
     (let params = params0\<lparr>Flags := Flags params0 OR (DCB_RTS_CONTROL_ENABLE OR DCB_DTR_CONTROL_ENABLE)\<rparr>;
          params = params\<lparr>Flags := Flags params AND NOT DCB_OUT_X_CTS_FLOW\<rparr>;
          params = params\<lparr>Flags := Flags params AND NOT DCB_OUT_X_DSR_FLOW\<rparr>;
          params = params\<lparr>Flags := Flags params AND NOT DCB_DSR_SENSITIVITY\<rparr>;
          params = params\<lparr>Flags := Flags params OR DCB_TX_CONTINUE_ON_XOFF\<rparr>;
          params = params\<lparr>Flags := Flags params AND NOT (DCB_IN_X OR DCB_OUT_X)\<rparr>;
          params = params\<lparr>Flags := Flags params AND NOT DCB_ERROR_CHAR\<rparr>;
          params = params\<lparr>Flags := Flags params AND NOT DCB_NULL\<rparr>;
          params = params\<lparr>Flags := Flags params AND NOT DCB_ABORT_ON_ERROR\<rparr>;
          params = params\<lparr>XonLim := 2048\<rparr>;
          params = params\<lparr>XoffLim := 512\<rparr>;
          params = params\<lparr>XonChar := 17\<rparr>;
          params = params\<lparr>XoffChar := 19\<rparr>
      in params)"

definition open_timeouts :: COMMTIMEOUTS where
  "open_timeouts =
     \<lparr>ReadIntervalTimeout = 0xFFFFFFFF,
      ReadTotalTimeoutMultiplier = 0xFFFFFFFF,
      ReadTotalTimeoutConstant = 1000,
      WriteTotalTimeoutMultiplier = 0,
      WriteTotalTimeoutConstant = 0\<rparr>"

text \<open>\<^verbatim>\<open>OpenPort\<close> returns the Go pair \<^verbatim>\<open>(*SerialPort, error)\<close>: \<open>None\<close> is
  \<^verbatim>\<open>nil\<close> in both components.\<close>

definition invalid_port :: "SerialPort option \<times> error option" where
  "invalid_port = (None, Some (SerialPortError ERROR_INVALID_SERIAL_PORT))"

definition OpenPort ::
  "'w os \<Rightarrow> string \<Rightarrow> Mode \<Rightarrow> 'w \<Rightarrow> (SerialPort option \<times> error option) \<times> 'w"
where
  "OpenPort os portName mode w =
     (case UTF16PtrFromString (device_path portName) of
        Inl err \<Rightarrow> ((None, Some (RawErrno err)), w)
      | Inr path \<Rightarrow>
          (case CreateFile os path (GENERIC_READ OR GENERIC_WRITE) 0 OPEN_EXISTING 0 w of
             (Inl err, w1) \<Rightarrow>
               (if err = ERROR_ACCESS_DENIED
                  then ((None, Some (SerialPortError ERROR_PORT_BUSY)), w1)
                else if err = ERROR_FILE_NOT_FOUND
                  then ((None, Some (SerialPortError ERROR_PORT_NOT_FOUND)), w1)
                else ((None, Some (RawErrno err)), w1))
           | (Inr h, w1) \<Rightarrow>
               (let port = \<lparr>handle = h\<rparr> in
                case SetMode os port mode w1 of
                  (Some _, w2) \<Rightarrow> (case Close os port w2 of (_, w3) \<Rightarrow> (invalid_port, w3))
                | (None, w2) \<Rightarrow>
                    (case GetCommState os (handle port) DCB_zero w2 of
                       ((params, Some _), w3) \<Rightarrow>
                         (case Close os port w3 of (_, w4) \<Rightarrow> (invalid_port, w4))
                     | ((params, None), w3) \<Rightarrow>
                         (case SetCommState os (handle port) (open_overlay params) w3 of
                            (Some _, w4) \<Rightarrow>
                              (case Close os port w4 of (_, w5) \<Rightarrow> (invalid_port, w5))
                          | (None, w4) \<Rightarrow>
                              (case SetCommTimeouts os (handle port) open_timeouts w4 of
                                 (Some _, w5) \<Rightarrow>
                                   (case Close os port w5 of (_, w6) \<Rightarrow> (invalid_port, w6))
                               | (None, w5) \<Rightarrow> ((Some port, None), w5)))))))"

text \<open>The loop of \<^verbatim>\<open>GetPortsList\<close> over the indices of \<open>list\<close>; \<open>None\<close> is the
  early return on a failed \<^verbatim>\<open>RegEnumValue\<close>.\<close>

fun enum_loop ::
  "'w os \<Rightarrow> Handle \<Rightarrow> nat list \<Rightarrow> u16 list list \<Rightarrow> 'w \<Rightarrow> u16 list list option \<times> 'w"
where
  "enum_loop os h [] list w = (Some list, w)"
| "enum_loop os h (i # is) list w =
     (case RegEnumValue os h (of_nat i) w of
        ((data, Some _), w1) \<Rightarrow> (None, w1)
      | ((data, None), w1) \<Rightarrow>
          enum_loop os h is (list[i := UTF16ToString (buffer1024 data)]) w1)"

text \<open>The registry key that \<^verbatim>\<open>GetPortsList\<close> opens.\<close>

definition serialcomm_key :: string where
  "serialcomm_key =
     ''HARDWARE'' @ [backslash] @ ''DEVICEMAP'' @ [backslash] @ ''SERIALCOMM'' @ [backslash]"

definition enumerating_ports :: "u16 list list option \<times> error option" where
  "enumerating_ports = (None, Some (SerialPortError ERROR_ENUMERATING_PORTS))"

definition GetPortsList :: "'w os \<Rightarrow> 'w \<Rightarrow> (u16 list list option \<times> error option) \<times> 'w" where
  "GetPortsList os w =
     (case UTF16PtrFromString serialcomm_key of
        Inl _ \<Rightarrow> (enumerating_ports, w)
      | Inr subKey \<Rightarrow>
          (case RegOpenKeyEx os HKEY_LOCAL_MACHINE subKey 0 KEY_READ w of
             ((h, Some _), w1) \<Rightarrow> (enumerating_ports, w1)
           | ((h, None), w1) \<Rightarrow>
               (case RegQueryInfoKey os h w1 of
                  ((valuesCount, Some _), w2) \<Rightarrow>
                    (enumerating_ports, snd (RegCloseKey os h w2))
                | ((valuesCount, None), w2) \<Rightarrow>
                    (let list = replicate (unat valuesCount) [] in
                     case enum_loop os h [0 ..< length list] list w2 of
                       (None, w3) \<Rightarrow> (enumerating_ports, snd (RegCloseKey os h w3))
                     | (Some list, w3) \<Rightarrow> ((Some list, None), snd (RegCloseKey os h w3))))))"

section \<open>Observing the calls\<close>

text \<open>One event per call that reaches the platform: the inputs of the call and what
  it returned.\<close>

datatype event =
    EvCreateFile string u32 u32 u32 u32 "Errno + Handle"
  | EvCloseHandle Handle "Errno option"
  | EvReadFile Handle "u8 list" "u8 list \<times> u32 \<times> Errno option"
  | EvWriteFile Handle "u8 list" "u32 \<times> Errno option"
  | EvGetCommState Handle DCB "DCB \<times> Errno option"
  | EvSetCommState Handle DCB "Errno option"
  | EvSetCommTimeouts Handle COMMTIMEOUTS "Errno option"
  | EvSetCommBreak Handle "Errno option"
  | EvClearCommBreak Handle "Errno option"
  | EvSleep i64
  | EvRegOpenKeyEx Handle string u32 u32 "Handle \<times> Errno option"
  | EvRegQueryInfoKey Handle "u32 \<times> Errno option"
  | EvRegEnumValue Handle u32 "u16 list \<times> Errno option"
  | EvRegCloseKey Handle "Errno option"

definition record_call :: "('r \<Rightarrow> event) \<Rightarrow> ('w \<Rightarrow> 'r \<times> 'w) \<Rightarrow> 'w \<times> event list \<Rightarrow> 'r \<times> 'w \<times> event list" where
  "record_call ev call s =
     (case s of (w, t) \<Rightarrow> (case call w of (r, w') \<Rightarrow> (r, (w', t @ [ev r]))))"

text \<open>\<open>logged os\<close> is the platform \<open>os\<close> with a journal: it answers every call as
  \<open>os\<close> does and appends the call's event to the list beside the world. A run of an
  operation against \<open>logged os\<close> therefore shows the calls the operation made, in order.\<close>

definition logged :: "'w os \<Rightarrow> ('w \<times> event list) os" where
  "logged os =
     \<lparr>CreateFile = (\<lambda>path access share create attrs.
        record_call (EvCreateFile path access share create attrs)
          (CreateFile os path access share create attrs)),
      CloseHandle = (\<lambda>h. record_call (EvCloseHandle h) (CloseHandle os h)),
      ReadFile = (\<lambda>h p. record_call (EvReadFile h p) (ReadFile os h p)),
      WriteFile = (\<lambda>h p. record_call (EvWriteFile h p) (WriteFile os h p)),
      GetCommState = (\<lambda>h dcb. record_call (EvGetCommState h dcb) (GetCommState os h dcb)),
      SetCommState = (\<lambda>h dcb. record_call (EvSetCommState h dcb) (SetCommState os h dcb)),
      SetCommTimeouts = (\<lambda>h ts. record_call (EvSetCommTimeouts h ts) (SetCommTimeouts os h ts)),
      SetCommBreak = (\<lambda>h. record_call (EvSetCommBreak h) (SetCommBreak os h)),
      ClearCommBreak = (\<lambda>h. record_call (EvClearCommBreak h) (ClearCommBreak os h)),
      Sleep = (\<lambda>d s. case s of (w, t) \<Rightarrow> (Sleep os d w, t @ [EvSleep d])),
      RegOpenKeyEx = (\<lambda>k sub opts access.
        record_call (EvRegOpenKeyEx k sub opts access) (RegOpenKeyEx os k sub opts access)),
      RegQueryInfoKey = (\<lambda>h. record_call (EvRegQueryInfoKey h) (RegQueryInfoKey os h)),
      RegEnumValue = (\<lambda>h i. record_call (EvRegEnumValue h i) (RegEnumValue os h i)),
      RegCloseKey = (\<lambda>h. record_call (EvRegCloseKey h) (RegCloseKey os h))\<rparr>"

text \<open>Dropping the journal from the result of a run against \<open>logged os\<close>.\<close>

definition forget :: "'r \<times> 'w \<times> event list \<Rightarrow> 'r \<times> 'w" where
  "forget x = (fst x, fst (snd x))"

section \<open>A scripted platform\<close>

text \<open>A test double for concrete runs: the world is the list of the replies still to
  come, and each call takes the next one. A call that finds no reply of its kind fails
  with \<^verbatim>\<open>ERROR_INVALID_HANDLE\<close> (6) and leaves the script as it is.\<close>

datatype reply =
    Fails Errno
  | Succeeds
  | GivesHandle Handle
  | GivesBytes "u8 list"
  | GivesCount u32
  | GivesDCB DCB
  | GivesValue "u16 list"

definition ERROR_INVALID_HANDLE :: Errno where
  "ERROR_INVALID_HANDLE = 6"

fun plain_reply :: "reply list \<Rightarrow> Errno option \<times> reply list" where
  "plain_reply (Succeeds # rs) = (None, rs)"
| "plain_reply (Fails e # rs) = (Some e, rs)"
| "plain_reply rs = (Some ERROR_INVALID_HANDLE, rs)"

fun handle_reply :: "reply list \<Rightarrow> (Errno + Handle) \<times> reply list" where
  "handle_reply (GivesHandle h # rs) = (Inr h, rs)"
| "handle_reply (Fails e # rs) = (Inl e, rs)"
| "handle_reply rs = (Inl ERROR_INVALID_HANDLE, rs)"

fun read_reply :: "u8 list \<Rightarrow> reply list \<Rightarrow> (u8 list \<times> u32 \<times> Errno option) \<times> reply list" where
  "read_reply p (GivesBytes bs # rs) =
     ((take (length p) bs @ drop (length bs) p, of_nat (min (length bs) (length p)), None), rs)"
| "read_reply p (Fails e # rs) = ((p, 0, Some e), rs)"
| "read_reply p rs = ((p, 0, Some ERROR_INVALID_HANDLE), rs)"

fun count_reply :: "reply list \<Rightarrow> (u32 \<times> Errno option) \<times> reply list" where
  "count_reply (GivesCount n # rs) = ((n, None), rs)"
| "count_reply (Fails e # rs) = ((0, Some e), rs)"
| "count_reply rs = ((0, Some ERROR_INVALID_HANDLE), rs)"

fun dcb_reply :: "DCB \<Rightarrow> reply list \<Rightarrow> (DCB \<times> Errno option) \<times> reply list" where
  "dcb_reply dcb (GivesDCB d # rs) = ((d, None), rs)"
| "dcb_reply dcb (Fails e # rs) = ((dcb, Some e), rs)"
| "dcb_reply dcb rs = ((dcb, Some ERROR_INVALID_HANDLE), rs)"

fun key_reply :: "reply list \<Rightarrow> (Handle \<times> Errno option) \<times> reply list" where
  "key_reply (GivesHandle h # rs) = ((h, None), rs)"
| "key_reply (Fails e # rs) = ((0, Some e), rs)"
| "key_reply rs = ((0, Some ERROR_INVALID_HANDLE), rs)"

fun value_reply :: "reply list \<Rightarrow> (u16 list \<times> Errno option) \<times> reply list" where
  "value_reply (GivesValue v # rs) = ((v, None), rs)"
| "value_reply (Fails e # rs) = (([], Some e), rs)"
| "value_reply rs = (([], Some ERROR_INVALID_HANDLE), rs)"

definition script_os :: "reply list os" where
  "script_os =
     \<lparr>CreateFile = (\<lambda>path access share create attrs. handle_reply),
      CloseHandle = (\<lambda>h. plain_reply),
      ReadFile = (\<lambda>h. read_reply),
      WriteFile = (\<lambda>h p. count_reply),
      GetCommState = (\<lambda>h. dcb_reply),
      SetCommState = (\<lambda>h dcb. plain_reply),
      SetCommTimeouts = (\<lambda>h ts. plain_reply),
      SetCommBreak = (\<lambda>h. plain_reply),
      ClearCommBreak = (\<lambda>h. plain_reply),
      Sleep = (\<lambda>d rs. rs),
      RegOpenKeyEx = (\<lambda>k sub opts access. key_reply),
      RegQueryInfoKey = (\<lambda>h. count_reply),
      RegEnumValue = (\<lambda>h i. value_reply),
      RegCloseKey = (\<lambda>h. plain_reply)\<rparr>"

definition a_port :: SerialPort where
  "a_port = \<lparr>handle = 7\<rparr>"

definition a_mode :: Mode where
  "a_mode = \<lparr>mBaudRate = 115200, mDataBits = 8, mParity = 0, mStopBits = 0\<rparr>"

text \<open>A control record that a former user of a device left behind: 1200 baud, seven
  data bits, even parity, RTS in handshake mode.\<close>

definition left_dcb :: DCB where
  "left_dcb = DCB_zero\<lparr>DCBlength := 28, BaudRate := 1200,
     Flags := DCB_BINARY OR DCB_RTS_CONTROL_HANDSHAKE, ByteSize := 7, Parity := 2\<rparr>"

text \<open>A mode whose data bits do not fit a byte.\<close>

definition wide_mode :: Mode where
  "wide_mode = \<lparr>mBaudRate = 9600, mDataBits = 256, mParity = 0, mStopBits = 0\<rparr>"

section \<open>A platform with a handle table\<close>

text \<open>A second test double, for the life of a handle: the world is the list of the open
  handles. \<^verbatim>\<open>CreateFile\<close> gives out the least value that is not open, as a platform
  that reuses handle values does; \<^verbatim>\<open>CloseHandle\<close> frees the value; every other call
  succeeds on an open handle and fails with \<^verbatim>\<open>ERROR_INVALID_HANDLE\<close> on any other
  value. The registry is absent from it.\<close>

definition fresh_handle :: "Handle list \<Rightarrow> Handle" where
  "fresh_handle opened = hd (filter (\<lambda>h. h \<notin> set opened) [1 ..< length opened + 2])"

definition on_handle :: "Handle \<Rightarrow> Handle list \<Rightarrow> 'r \<Rightarrow> 'r \<Rightarrow> 'r \<times> Handle list" where
  "on_handle h opened good bad = (if h \<in> set opened then (good, opened) else (bad, opened))"

definition table_os :: "Handle list os" where
  "table_os =
     \<lparr>CreateFile = (\<lambda>path access share create attrs opened.
        (Inr (fresh_handle opened), fresh_handle opened # opened)),
      CloseHandle = (\<lambda>h opened.
        if h \<in> set opened then (None, removeAll h opened)
        else (Some ERROR_INVALID_HANDLE, opened)),
      ReadFile = (\<lambda>h p opened.
        on_handle h opened (p, of_nat (length p), None) (p, 0, Some ERROR_INVALID_HANDLE)),
      WriteFile = (\<lambda>h p opened.
        on_handle h opened (of_nat (length p), None) (0, Some ERROR_INVALID_HANDLE)),
      GetCommState = (\<lambda>h dcb opened.
        on_handle h opened (left_dcb, None) (dcb, Some ERROR_INVALID_HANDLE)),
      SetCommState = (\<lambda>h dcb opened. on_handle h opened None (Some ERROR_INVALID_HANDLE)),
      SetCommTimeouts = (\<lambda>h ts opened. on_handle h opened None (Some ERROR_INVALID_HANDLE)),
      SetCommBreak = (\<lambda>h opened. on_handle h opened None (Some ERROR_INVALID_HANDLE)),
      ClearCommBreak = (\<lambda>h opened. on_handle h opened None (Some ERROR_INVALID_HANDLE)),
      Sleep = (\<lambda>d opened. opened),
      RegOpenKeyEx = (\<lambda>k sub opts access opened. ((0, Some ERROR_FILE_NOT_FOUND), opened)),
      RegQueryInfoKey = (\<lambda>h opened. ((0, Some ERROR_INVALID_HANDLE), opened)),
      RegEnumValue = (\<lambda>h i opened. (([], Some ERROR_INVALID_HANDLE), opened)),
      RegCloseKey = (\<lambda>h opened. (Some ERROR_INVALID_HANDLE, opened))\<rparr>"

section \<open>Notions of the specification\<close>

text \<open>The error kinds of the specification (its section 7), after its own words, and
  the kind of each error value this file can return: a code of \<^verbatim>\<open>SerialPortError\<close>
  has the kind of the same name, a raw error number is the raw kind. No code of the file
  bears the name \<open>InvalidConfiguration\<close>.\<close>

datatype spec_error_kind =
    PortNotFound
  | PortBusy
  | InvalidConfiguration
  | InvalidSerialPort
  | EnumerationFailed
  | RawPlatformError

fun spec_kind_of :: "error \<Rightarrow> spec_error_kind" where
  "spec_kind_of (SerialPortError ERROR_PORT_BUSY) = PortBusy"
| "spec_kind_of (SerialPortError ERROR_PORT_NOT_FOUND) = PortNotFound"
| "spec_kind_of (SerialPortError ERROR_INVALID_SERIAL_PORT) = InvalidSerialPort"
| "spec_kind_of (SerialPortError ERROR_ENUMERATING_PORTS) = EnumerationFailed"
| "spec_kind_of (RawErrno e) = RawPlatformError"

text \<open>The two-bit field \<^verbatim>\<open>fRtsControl\<close> (bits 12-13) of \<open>Flags\<close>, as the comment of the
  record lays the bit field out: 0 is disabled, 1 enabled, 2 handshake, 3 toggle.\<close>

definition fRtsControl :: "u32 \<Rightarrow> u32" where
  "fRtsControl flags = drop_bit 12 (flags AND 0x3000)"

text \<open>The close events on a handle in a journal.\<close>

fun closes_of :: "Handle \<Rightarrow> event list \<Rightarrow> event list" where
  "closes_of h [] = []"
| "closes_of h (EvCloseHandle h' r # evs) =
     (if h' = h then EvCloseHandle h' r # closes_of h evs else closes_of h evs)"
| "closes_of h (_ # evs) = closes_of h evs"

text \<open>The journals of the returning runs of \<^verbatim>\<open>Read\<close>, from the buffer \<open>p\<close> and the
  local control record \<open>params\<close>, with the result \<open>r\<close> of the run: any number of idle
  rounds (a read of 0 bytes, the fetch into \<open>params\<close>, a successful write-back of what
  the fetch left), each handing its buffer and its record to the next, and then one of
  three ends: a failed read, with its count and error as the result; a read of more than
  0 bytes, with its count as the result; or a read of 0 bytes, the fetch, a failed
  write-back and the close, with 0 and the error of the write-back as the result.\<close>

fun read_run :: "Handle \<Rightarrow> u8 list \<Rightarrow> DCB \<Rightarrow> event list \<Rightarrow> u8 list \<times> int \<times> error option \<Rightarrow> bool" where
  "read_run h p params [] r = False"
| "read_run h p params (ev # evs) r =
     (case ev of
        EvReadFile h1 q (p', n, re) \<Rightarrow>
          h1 = h \<and> q = p \<and>
          (case re of
             Some e \<Rightarrow> evs = [] \<and> r = (p', int_of_u32 n, Some (RawErrno e))
           | None \<Rightarrow>
               if 0 < n then evs = [] \<and> r = (p', int_of_u32 n, None)
               else
                 (case evs of
                    EvGetCommState h2 d (d', ge) # EvSetCommState h3 d'' se # evs' \<Rightarrow>
                      h2 = h \<and> d = params \<and> h3 = h \<and> d'' = d' \<and>
                      (case se of
                         Some e \<Rightarrow>
                           (case evs' of
                              [EvCloseHandle h4 c] \<Rightarrow> h4 = h \<and> r = (p', 0, Some (RawErrno e))
                            | _ \<Rightarrow> False)
                       | None \<Rightarrow> read_run h p' d' evs' r)
                  | _ \<Rightarrow> False))
      | _ \<Rightarrow> False)"


text \<open>A blocking read that failed.\<close>

fun read_failed :: "event \<Rightarrow> bool" where
  "read_failed (EvReadFile h p (p', n, Some e)) = True"
| "read_failed _ = False"






section \<open>Evaluation rules for the platforms\<close>

lemma logged_simps:
  "CreateFile (logged os) path a b c d (w, t) =
     (case CreateFile os path a b c d w of (r, w') \<Rightarrow> (r, (w', t @ [EvCreateFile path a b c d r])))"
  "CloseHandle (logged os) h (w, t) =
     (case CloseHandle os h w of (r, w') \<Rightarrow> (r, (w', t @ [EvCloseHandle h r])))"
  "ReadFile (logged os) h p (w, t) =
     (case ReadFile os h p w of (r, w') \<Rightarrow> (r, (w', t @ [EvReadFile h p r])))"
  "WriteFile (logged os) h p (w, t) =
     (case WriteFile os h p w of (r, w') \<Rightarrow> (r, (w', t @ [EvWriteFile h p r])))"
  "GetCommState (logged os) h dcb (w, t) =
     (case GetCommState os h dcb w of (r, w') \<Rightarrow> (r, (w', t @ [EvGetCommState h dcb r])))"
  "SetCommState (logged os) h dcb (w, t) =
     (case SetCommState os h dcb w of (r, w') \<Rightarrow> (r, (w', t @ [EvSetCommState h dcb r])))"
  "SetCommTimeouts (logged os) h ts (w, t) =
     (case SetCommTimeouts os h ts w of (r, w') \<Rightarrow> (r, (w', t @ [EvSetCommTimeouts h ts r])))"
  "SetCommBreak (logged os) h (w, t) =
     (case SetCommBreak os h w of (r, w') \<Rightarrow> (r, (w', t @ [EvSetCommBreak h r])))"
  "ClearCommBreak (logged os) h (w, t) =
     (case ClearCommBreak os h w of (r, w') \<Rightarrow> (r, (w', t @ [EvClearCommBreak h r])))"
  "Sleep (logged os) dur (w, t) = (Sleep os dur w, t @ [EvSleep dur])"
  "RegOpenKeyEx (logged os) k sub opts acc (w, t) =
     (case RegOpenKeyEx os k sub opts acc w of (r, w') \<Rightarrow> (r, (w', t @ [EvRegOpenKeyEx k sub opts acc r])))"
  "RegQueryInfoKey (logged os) h (w, t) =
     (case RegQueryInfoKey os h w of (r, w') \<Rightarrow> (r, (w', t @ [EvRegQueryInfoKey h r])))"
  "RegEnumValue (logged os) h i (w, t) =
     (case RegEnumValue os h i w of (r, w') \<Rightarrow> (r, (w', t @ [EvRegEnumValue h i r])))"
  "RegCloseKey (logged os) h (w, t) =
     (case RegCloseKey os h w of (r, w') \<Rightarrow> (r, (w', t @ [EvRegCloseKey h r])))"
  by (simp_all add: logged_def record_call_def)

lemma script_simps:
  "CreateFile script_os path a b c d = handle_reply"
  "CloseHandle script_os h = plain_reply"
  "ReadFile script_os h = read_reply"
  "WriteFile script_os h p = count_reply"
  "GetCommState script_os h = dcb_reply"
  "SetCommState script_os h dcb = plain_reply"
  "SetCommTimeouts script_os h ts = plain_reply"
  "SetCommBreak script_os h = plain_reply"
  "ClearCommBreak script_os h = plain_reply"
  "Sleep script_os dur rs = rs"
  "RegOpenKeyEx script_os k sub opts acc = key_reply"
  "RegQueryInfoKey script_os h = count_reply"
  "RegEnumValue script_os h i = value_reply"
  "RegCloseKey script_os h = plain_reply"
  by (simp_all add: script_os_def)

lemma sint_millis_exact:
  "sint (word_of_int ms * Millisecond :: i64) = ms * 1000000
     \<longleftrightarrow> - 9223372036854 \<le> ms \<and> ms \<le> 9223372036854"
proof -
  have a: "sint (word_of_int k :: i64) = signed_take_bit 63 k" for k
    by (simp add: sint_sbintrunc')
  have b: "word_of_int ms * Millisecond = (word_of_int (ms * 1000000) :: i64)"
    by (simp add: Millisecond_def)
  have c: "signed_take_bit 63 (ms * 1000000) = ms * 1000000
             \<longleftrightarrow> - (2 ^ 63) \<le> ms * 1000000 \<and> ms * 1000000 < 2 ^ 63"
    by (rule signed_take_bit_int_eq_self_iff)
  have up: "(ms * 1000000 < (9223372036854775808::int)) = (ms \<le> 9223372036854)"
    by linarith
  have lo: "(- (9223372036854775808::int) \<le> ms * 1000000) = (- 9223372036854 \<le> ms)"
    by linarith
  have d: "- (2 ^ 63) \<le> ms * 1000000 \<and> ms * 1000000 < 2 ^ 63
             \<longleftrightarrow> - 9223372036854 \<le> ms \<and> ms \<le> 9223372036854"
    using up lo by simp
  show ?thesis
    unfolding b a c d ..
qed

section \<open>The journal does not change a run\<close>

text \<open>Against \<open>logged os\<close> every operation returns what it returns against \<open>os\<close> and
  leaves the world as it leaves it against \<open>os\<close>: the journal only observes. So what is
  proved below of the runs against \<open>logged os\<close>, for every \<open>os\<close>, is said of the runs
  against every platform.\<close>

lemma subKey_ok: "UTF16PtrFromString serialcomm_key = Inr serialcomm_key"
  by (simp add: UTF16PtrFromString_def backslash_def serialcomm_key_def)

lemma forget_simp [simp]: "forget (r, (w, t)) = (r, w)"
  by (simp add: forget_def)

lemma logged_Close: "forget (Close (logged os) port (w, t)) = Close os port w"
  by (simp add: Close_def logged_simps split: prod.split)

lemma logged_Write: "forget (Write (logged os) port p (w, t)) = Write os port p w"
  by (simp add: Write_def logged_simps split: prod.split)

lemma logged_SendBreak: "forget (SendBreak (logged os) port breakTime (w, t)) = SendBreak os port breakTime w"
  by (simp add: SendBreak_def Close_def logged_simps split: prod.split option.split)

lemma logged_SetMode: "forget (SetMode (logged os) port mode (w, t)) = SetMode os port mode w"
  by (simp add: SetMode_def Close_def logged_simps Let_def split: prod.split option.split)

lemma logged_SetMode_pair:
  "SetMode (logged os) port mode (w, t) = (r, (w', t')) \<Longrightarrow> SetMode os port mode w = (r, w')"
  using logged_SetMode [of os port mode w t] by simp

lemma logged_OpenPort: "forget (OpenPort (logged os) portName mode (w, t)) = OpenPort os portName mode w"
proof (cases "UTF16PtrFromString (device_path portName)")
  case (Inl err)
  then show ?thesis by (simp add: OpenPort_def)
next
  case (Inr path)
  obtain c w1 where cf: "CreateFile os path (GENERIC_READ OR GENERIC_WRITE) 0 OPEN_EXISTING 0 w = (c, w1)"
    by (metis prod.exhaust)
  show ?thesis
  proof (cases c)
    case (Inl err)
    with Inr cf show ?thesis by (simp add: OpenPort_def logged_simps)
  next
    case (Inr h)
    let ?t1 = "t @ [EvCreateFile path (GENERIC_READ OR GENERIC_WRITE) 0 OPEN_EXISTING 0 (Inr h)]"
    obtain r w2 t2 where sm: "SetMode (logged os) \<lparr>handle = h\<rparr> mode (w1, ?t1) = (r, (w2, t2))"
      by (metis prod.exhaust)
    from logged_SetMode_pair [OF sm] have sm': "SetMode os \<lparr>handle = h\<rparr> mode w1 = (r, w2)" .
    from \<open>UTF16PtrFromString (device_path portName) = Inr path\<close> cf Inr sm sm'
    show ?thesis
      by (simp add: OpenPort_def logged_simps Close_def Let_def split: prod.split option.split)
  qed
qed

lemma logged_enum_loop:
  "forget (enum_loop (logged os) h is list (w, t)) = enum_loop os h is list w"
  by (induction "is" arbitrary: list w t) (simp_all add: logged_simps split: prod.split option.split)

lemma logged_GetPortsList: "forget (GetPortsList (logged os) (w, t)) = GetPortsList os w"
proof -
  obtain k oe w1 where o: "RegOpenKeyEx os HKEY_LOCAL_MACHINE serialcomm_key 0 KEY_READ w = ((k, oe), w1)"
    by (metis prod.exhaust)
  obtain n qe w2 where q: "RegQueryInfoKey os k w1 = ((n, qe), w2)"
    by (metis prod.exhaust)
  let ?t2 = "t @ [EvRegOpenKeyEx HKEY_LOCAL_MACHINE serialcomm_key 0 KEY_READ (k, oe), EvRegQueryInfoKey k (n, qe)]"
  obtain r w3 t3 where
    el: "enum_loop (logged os) k [0 ..< unat n] (replicate (unat n) []) (w2, ?t2) = (r, (w3, t3))"
    by (metis prod.exhaust)
  from logged_enum_loop [of os k "[0 ..< unat n]" "replicate (unat n) []" w2 ?t2] el
  have el': "enum_loop os k [0 ..< unat n] (replicate (unat n) []) w2 = (r, w3)"
    by simp
  from o q el el' show ?thesis
    by (simp add: GetPortsList_def subKey_ok logged_simps Let_def forget_def
        split: prod.split option.split)
qed

lemma logged_Read_loop_sound:
  assumes "Read_loop (logged os) port p params (w, t) = Some y"
  shows "Read_loop os port p params w = Some (forget y)"
proof -
  have "logged os = logged os \<longrightarrow>
      (\<forall>w' t'. (w, t) = (w', t') \<longrightarrow> Read_loop os port p params w' = Some (forget y))"
  proof (rule Read_loop.raw_induct
      [where P = "\<lambda>os' port p params s y. os' = logged os \<longrightarrow>
         (\<forall>w t. s = (w, t) \<longrightarrow> Read_loop os port p params w = Some (forget y))", OF _ assms],
      intro impI allI)
    fix f :: "('a \<times> event list) os \<Rightarrow> SerialPort \<Rightarrow> u8 list \<Rightarrow> DCB \<Rightarrow> 'a \<times> event list
      \<Rightarrow> ((u8 list \<times> int \<times> error option) \<times> 'a \<times> event list) option"
    fix os' port p params s y w t
    assume ih: "\<And>os' port p params s y. f os' port p params s = Some y \<Longrightarrow>
         os' = logged os \<longrightarrow>
         (\<forall>w t. s = (w, t) \<longrightarrow> Read_loop os port p params w = Some (forget y))"
    assume body: "(case ReadFile os' (handle port) p s of
        ((p', readed, None), w1) \<Rightarrow>
          if 0 < readed then Some ((p', int_of_u32 readed, None), w1)
          else (case GetCommState os' (handle port) params w1 of
                 ((params', x), w2) \<Rightarrow>
                   (case SetCommState os' (handle port) params' w2 of
                      (None, w3) \<Rightarrow> f os' port p' params' w3
                    | (Some err, w3) \<Rightarrow>
                        (case Close os' port w3 of
                           (x, w4) \<Rightarrow> Some ((p', 0, Some (RawErrno err)), w4))))
      | ((p', readed, Some err), w1) \<Rightarrow> Some ((p', int_of_u32 readed, Some (RawErrno err)), w1)) =
      Some y"
    assume os': "os' = logged os" and s: "s = (w, t)"
    obtain p1 n re w1 where r: "ReadFile os (handle port) p w = ((p1, n, re), w1)"
      by (metis prod.exhaust)
    obtain d ge w2 where g: "GetCommState os (handle port) params w1 = ((d, ge), w2)"
      by (metis prod.exhaust)
    obtain se w3 where st: "SetCommState os (handle port) d w2 = (se, w3)"
      by (metis prod.exhaust)
    obtain ce w4 where c: "CloseHandle os (handle port) w3 = (ce, w4)"
      by (metis prod.exhaust)
    show "Read_loop os port p params w = Some (forget y)"
    proof (cases "re = None \<and> \<not> 0 < n \<and> se = None")
      case True
      with body os' s r g st have "f (logged os) port p1 d
          (w3, t @ [EvReadFile (handle port) p (p1, n, None), EvGetCommState (handle port) params (d, ge),
                    EvSetCommState (handle port) d None]) = Some y"
        by (simp add: logged_simps)
      from ih [OF this] have "Read_loop os port p1 d w3 = Some (forget y)" by simp
      with True r g st show ?thesis
        by (subst Read_loop.simps) simp
    next
      case False
      with body os' s r g st c show ?thesis
        by (subst Read_loop.simps)
           (auto simp add: logged_simps Close_def split: option.splits if_splits)
    qed
  qed
  then show ?thesis by simp
qed

lemma logged_Read_loop_complete:
  assumes "Read_loop os port p params w = Some y"
  shows "\<exists>t'. Read_loop (logged os) port p params (w, t) = Some (fst y, (snd y, t'))"
proof -
  have "os = os \<longrightarrow>
      (\<forall>t. \<exists>t'. Read_loop (logged os) port p params (w, t) = Some (fst y, (snd y, t')))"
  proof (rule Read_loop.raw_induct
      [where P = "\<lambda>os' port p params w y. os' = os \<longrightarrow>
         (\<forall>t. \<exists>t'. Read_loop (logged os) port p params (w, t) = Some (fst y, (snd y, t')))",
        OF _ assms], intro impI allI)
    fix f :: "'a os \<Rightarrow> SerialPort \<Rightarrow> u8 list \<Rightarrow> DCB \<Rightarrow> 'a
      \<Rightarrow> ((u8 list \<times> int \<times> error option) \<times> 'a) option"
    fix os' port p params w y t
    assume ih: "\<And>os' port p params w y. f os' port p params w = Some y \<Longrightarrow>
         os' = os \<longrightarrow>
         (\<forall>t. \<exists>t'. Read_loop (logged os) port p params (w, t) = Some (fst y, (snd y, t')))"
    assume body: "(case ReadFile os' (handle port) p w of
        ((p', readed, None), w1) \<Rightarrow>
          if 0 < readed then Some ((p', int_of_u32 readed, None), w1)
          else (case GetCommState os' (handle port) params w1 of
                 ((params', x), w2) \<Rightarrow>
                   (case SetCommState os' (handle port) params' w2 of
                      (None, w3) \<Rightarrow> f os' port p' params' w3
                    | (Some err, w3) \<Rightarrow>
                        (case Close os' port w3 of
                           (x, w4) \<Rightarrow> Some ((p', 0, Some (RawErrno err)), w4))))
      | ((p', readed, Some err), w1) \<Rightarrow> Some ((p', int_of_u32 readed, Some (RawErrno err)), w1)) =
      Some y"
    assume os': "os' = os"
    obtain p1 n re w1 where r: "ReadFile os (handle port) p w = ((p1, n, re), w1)"
      by (metis prod.exhaust)
    obtain d ge w2 where g: "GetCommState os (handle port) params w1 = ((d, ge), w2)"
      by (metis prod.exhaust)
    obtain se w3 where st: "SetCommState os (handle port) d w2 = (se, w3)"
      by (metis prod.exhaust)
    obtain ce w4 where c: "CloseHandle os (handle port) w3 = (ce, w4)"
      by (metis prod.exhaust)
    show "\<exists>t'. Read_loop (logged os) port p params (w, t) = Some (fst y, (snd y, t'))"
    proof (cases "re = None \<and> \<not> 0 < n \<and> se = None")
      case True
      with body os' r g st have "f os port p1 d w3 = Some y"
        by simp
      from ih [OF this] obtain t' where "Read_loop (logged os) port p1 d
          (w3, t @ [EvReadFile (handle port) p (p1, n, None), EvGetCommState (handle port) params (d, ge),
                    EvSetCommState (handle port) d None]) = Some (fst y, (snd y, t'))"
        by blast
      with True r g st show ?thesis
        by (subst Read_loop.simps) (simp add: logged_simps)
    next
      case False
      with body os' r g st c show ?thesis
        by (subst Read_loop.simps)
           (auto simp add: logged_simps Close_def split: option.splits if_splits)
    qed
  qed
  then show ?thesis by simp
qed

section \<open>Opening a port: failure to acquire the handle\<close>



section \<open>The break signal\<close>

text \<open>C9. \<^verbatim>\<open>SendBreak\<close> first asserts the break. If that fails it closes the handle
  and returns \<^verbatim>\<open>ERROR_INVALID_SERIAL_PORT\<close>, and the journal holds no sleep and no
  clear. Otherwise it sleeps for \<^verbatim>\<open>time.Duration(breakTime) * time.Millisecond\<close> and
  then clears the break; if the clear fails it closes the handle and returns
  \<^verbatim>\<open>ERROR_INVALID_SERIAL_PORT\<close>; if it succeeds the result is \<^verbatim>\<open>nil\<close> and the journal
  is assert, sleep, clear, in that order. The duration is a signed 64-bit count of
  nanoseconds, and the product wraps: it is the requested number of milliseconds exactly
  when the request lies between -9223372036854 and 9223372036854 milliseconds, and
  for no other request.\<close>

theorem SendBreak_steps:
  "(SetCommBreak os (handle port) w = (Some e, w1) \<and> CloseHandle os (handle port) w1 = (c, w2) \<longrightarrow>
      SendBreak (logged os) port breakTime (w, t) =
        (Some (SerialPortError ERROR_INVALID_SERIAL_PORT),
         (w2, t @ [EvSetCommBreak (handle port) (Some e), EvCloseHandle (handle port) c])))
   \<and> (SetCommBreak os (handle port) w = (None, w1)
       \<and> ClearCommBreak os (handle port) (Sleep os (word_of_int breakTime * Millisecond) w1) =
            (Some e, w3)
       \<and> CloseHandle os (handle port) w3 = (c, w4) \<longrightarrow>
      SendBreak (logged os) port breakTime (w, t) =
        (Some (SerialPortError ERROR_INVALID_SERIAL_PORT),
         (w4, t @ [EvSetCommBreak (handle port) None,
                   EvSleep (word_of_int breakTime * Millisecond),
                   EvClearCommBreak (handle port) (Some e),
                   EvCloseHandle (handle port) c])))
   \<and> (SetCommBreak os (handle port) w = (None, w1)
       \<and> ClearCommBreak os (handle port) (Sleep os (word_of_int breakTime * Millisecond) w1) =
            (None, w3) \<longrightarrow>
      SendBreak (logged os) port breakTime (w, t) =
        (None,
         (w3, t @ [EvSetCommBreak (handle port) None,
                   EvSleep (word_of_int breakTime * Millisecond),
                   EvClearCommBreak (handle port) None])))
   \<and> (sint (word_of_int breakTime * Millisecond :: i64) = breakTime * 1000000
        \<longleftrightarrow> - 9223372036854 \<le> breakTime \<and> breakTime \<le> 9223372036854)"
  using sint_millis_exact [of breakTime]
  by (simp add: SendBreak_def Close_def logged_simps)

text \<open>A break of 250 ms on the scripted platform: the assert fails; the clear fails;
  both succeed. The duration is exact at 250 ms, at the largest exact request and at a
  negative one.\<close>

theorem SendBreak_steps_witness:
  "SendBreak (logged script_os) a_port 250 ([Fails 31, Succeeds], []) =
     (Some (SerialPortError ERROR_INVALID_SERIAL_PORT),
      ([], [EvSetCommBreak 7 (Some 31), EvCloseHandle 7 None]))
   \<and> SendBreak (logged script_os) a_port 250 ([Succeeds, Fails 31, Succeeds], []) =
     (Some (SerialPortError ERROR_INVALID_SERIAL_PORT),
      ([], [EvSetCommBreak 7 None, EvSleep 250000000, EvClearCommBreak 7 (Some 31),
            EvCloseHandle 7 None]))
   \<and> SendBreak (logged script_os) a_port 250 ([Succeeds, Succeeds], []) =
     (None, ([], [EvSetCommBreak 7 None, EvSleep 250000000, EvClearCommBreak 7 None]))
   \<and> sint (word_of_int 250 * Millisecond :: i64) = 250 * 1000000
   \<and> sint (word_of_int 9223372036854 * Millisecond :: i64) = 9223372036854 * 1000000
   \<and> sint (word_of_int (- 1) * Millisecond :: i64) = - 1 * 1000000"
  using
    SendBreak_steps [where os = script_os and port = a_port and breakTime = 250 and t = "[]"
      and w = "[Fails 31, Succeeds]" and e = 31 and ?w1.0 = "[Succeeds]" and c = None
      and ?w2.0 = "[]"]
    SendBreak_steps [where os = script_os and port = a_port and breakTime = 250 and t = "[]"
      and w = "[Succeeds, Fails 31, Succeeds]" and e = 31 and ?w1.0 = "[Fails 31, Succeeds]"
      and ?w3.0 = "[Succeeds]" and c = None and ?w4.0 = "[]"]
    SendBreak_steps [where os = script_os and port = a_port and breakTime = 250 and t = "[]"
      and w = "[Succeeds, Succeeds]" and ?w1.0 = "[Succeeds]" and ?w3.0 = "[]"]
    SendBreak_steps [where os = script_os and port = a_port and breakTime = 9223372036854]
    SendBreak_steps [where os = script_os and port = a_port and breakTime = "- 1"]
  by (simp add: script_simps a_port_def Millisecond_def)

text \<open>A break of 9223372036855 ms, one more than the largest exact request: the call
  asserts, sleeps, clears and returns \<^verbatim>\<open>nil\<close>, and the duration passed to the sleep is
  -9223372036854551616 ns, not 9223372036855 ms.\<close>

theorem SendBreak_steps_counterexample:
  "SendBreak (logged script_os) a_port 9223372036855 ([Succeeds, Succeeds], []) =
     (None, ([], [EvSetCommBreak 7 None, EvSleep 9223372036855000000, EvClearCommBreak 7 None]))
   \<and> sint (word_of_int 9223372036855 * Millisecond :: i64) = - 9223372036854551616
   \<and> sint (word_of_int 9223372036855 * Millisecond :: i64) \<noteq> 9223372036855 * 1000000"
  by (simp add: SendBreak_def Close_def logged_simps script_simps a_port_def Millisecond_def)

section \<open>Journals of SetMode and the shape of OpenPort's result\<close>

lemma SetMode_journal_case:
  "(case SetMode (logged os) port mode (w, t) of (r, (w', t')) \<Rightarrow>
     (r = None \<and> (\<exists>d0 d. t' = t @ [EvGetCommState (handle port) DCB_zero (d0, None),
                                         EvSetCommState (handle port) d None]))
       \<or> (r = Some (SerialPortError ERROR_INVALID_SERIAL_PORT) \<and>
            (\<exists>evs c. t' = t @ evs @ [EvCloseHandle (handle port) c] \<and> closes_of (handle port) evs = [])))"
  by (simp add: SetMode_def Close_def logged_simps Let_def split: prod.split option.split)

lemma SetMode_journal:
  assumes "SetMode (logged os) port mode (w, t) = (r, (w', t'))"
  shows "(r = None \<and> (\<exists>d0 d. t' = t @ [EvGetCommState (handle port) DCB_zero (d0, None),
                                         EvSetCommState (handle port) d None]))
       \<or> (r = Some (SerialPortError ERROR_INVALID_SERIAL_PORT) \<and>
            (\<exists>evs c. t' = t @ evs @ [EvCloseHandle (handle port) c] \<and> closes_of (handle port) evs = []))"
  using SetMode_journal_case [where os = os and port = port and mode = mode and w = w and t = t] assms by simp

lemma closes_of_append: "closes_of h (xs @ ys) = closes_of h xs @ closes_of h ys"
  by (induction h xs rule: closes_of.induct) auto

lemma OpenPort_one_of_two:
  "(case fst (OpenPort os portName mode w) of (po, eo) \<Rightarrow> (po = None) = (eo \<noteq> None))"
  by (simp add: OpenPort_def Close_def invalid_port_def Let_def
        split: sum.split prod.split option.split)

lemma uint_word_of_int_u32: "0 \<le> k \<Longrightarrow> k < 2 ^ 32 \<Longrightarrow> uint (word_of_int k :: u32) = k"
  by (simp add: unsigned_of_int take_bit_int_eq_self)

lemma uint_word_of_int_u8: "0 \<le> k \<Longrightarrow> k < 2 ^ 8 \<Longrightarrow> uint (word_of_int k :: u8) = k"
  by (simp add: unsigned_of_int take_bit_int_eq_self)

lemma if_update:
  "(if b then p\<lparr>BaudRate := x\<rparr> else p\<lparr>BaudRate := y\<rparr>) = p\<lparr>BaudRate := (if b then x else y)\<rparr>"
  "(if b then p\<lparr>ByteSize := u\<rparr> else p\<lparr>ByteSize := v\<rparr>) = p\<lparr>ByteSize := (if b then u else v)\<rparr>"
  by simp_all

section \<open>Applying a mode\<close>

text \<open>\<^verbatim>\<open>OpenPort\<close> applies the mode through \<^verbatim>\<open>SetMode\<close>: once the handle is acquired,
  the journal of \<^verbatim>\<open>OpenPort\<close> goes on with the journal of that call of \<^verbatim>\<open>SetMode\<close>.\<close>

lemma OpenPort_applies_mode:
  assumes "UTF16PtrFromString (device_path portName) = Inr path"
    and "CreateFile os path (GENERIC_READ OR GENERIC_WRITE) 0 OPEN_EXISTING 0 w = (Inr h, w1)"
  shows "\<exists>evs. snd (snd (OpenPort (logged os) portName mode (w, t))) =
           snd (snd (SetMode (logged os) \<lparr>handle = h\<rparr> mode
             (w1, t @ [EvCreateFile path (GENERIC_READ OR GENERIC_WRITE) 0 OPEN_EXISTING 0 (Inr h)])))
           @ evs"
proof -
  obtain r w2 t2 where sm: "SetMode (logged os) \<lparr>handle = h\<rparr> mode
      (w1, t @ [EvCreateFile path (GENERIC_READ OR GENERIC_WRITE) 0 OPEN_EXISTING 0 (Inr h)]) =
      (r, (w2, t2))"
    by (metis prod.exhaust)
  from assms sm show ?thesis
    by (simp add: OpenPort_def logged_simps Close_def invalid_port_def Let_def
        split: prod.split option.split)
qed

text \<open>C3, as the code has it. \<^verbatim>\<open>SetMode\<close> fetches the control record into a zeroed
  \<^verbatim>\<open>DCB\<close> and, when the fetch succeeds, writes back the fetched record with four fields
  replaced and every other field as fetched: the baud rate is 9600 when
  \<^verbatim>\<open>mode.BaudRate\<close> is 0 and \<^verbatim>\<open>uint32(mode.BaudRate)\<close> otherwise, the byte size is 8
  when \<^verbatim>\<open>mode.DataBits\<close> is 0 and \<^verbatim>\<open>byte(mode.DataBits)\<close> otherwise, the stop-bit
  and parity codes are \<^verbatim>\<open>byte(mode.StopBits)\<close> and \<^verbatim>\<open>byte(mode.Parity)\<close>. The
  conversions keep the low 32 or 8 bits: the value written is the value of the
  \<^verbatim>\<open>Mode\<close> when that value fits the field. The journal of the call is the fetch, the
  write of that record and, when the write fails, the close.\<close>

theorem SetMode_written_record:
  assumes "GetCommState os (handle port) DCB_zero w = ((params, None), w1)"
    and "written = params
           \<lparr>BaudRate := (if mBaudRate mode = 0 then 9600 else word_of_int (mBaudRate mode)),
            ByteSize := (if mDataBits mode = 0 then 8 else word_of_int (mDataBits mode)),
            StopBits := word_of_int (mStopBits mode),
            Parity := word_of_int (mParity mode)\<rparr>"
    and "SetCommState os (handle port) written w1 = (se, w2)"
  shows "(\<exists>evs. snd (snd (SetMode (logged os) port mode (w, t))) =
            t @ [EvGetCommState (handle port) DCB_zero (params, None),
                 EvSetCommState (handle port) written se] @ evs
          \<and> (se = None \<and> evs = [] \<or> se \<noteq> None \<and> (\<exists>c. evs = [EvCloseHandle (handle port) c])))
       \<and> (DCBlength written = DCBlength params \<and> Flags written = Flags params
          \<and> wReserved written = wReserved params \<and> XonLim written = XonLim params
          \<and> XoffLim written = XoffLim params \<and> XonChar written = XonChar params
          \<and> XoffChar written = XoffChar params \<and> ErrorChar written = ErrorChar params
          \<and> EofChar written = EofChar params \<and> EvtChar written = EvtChar params
          \<and> wReserved1 written = wReserved1 params)
       \<and> (0 < mBaudRate mode \<and> mBaudRate mode < 2 ^ 32 \<longrightarrow> uint (BaudRate written) = mBaudRate mode)
       \<and> (0 < mDataBits mode \<and> mDataBits mode < 2 ^ 8 \<longrightarrow> uint (ByteSize written) = mDataBits mode)
       \<and> (0 \<le> mStopBits mode \<and> mStopBits mode < 2 ^ 8 \<longrightarrow> uint (StopBits written) = mStopBits mode)
       \<and> (0 \<le> mParity mode \<and> mParity mode < 2 ^ 8 \<longrightarrow> uint (Parity written) = mParity mode)"
proof -
  have j: "\<exists>evs. snd (snd (SetMode (logged os) port mode (w, t))) =
            t @ [EvGetCommState (handle port) DCB_zero (params, None),
                 EvSetCommState (handle port) written se] @ evs
          \<and> (se = None \<and> evs = [] \<or> se \<noteq> None \<and> (\<exists>c. evs = [EvCloseHandle (handle port) c]))"
    using assms
    by (cases se; cases "CloseHandle os (handle port) w2")
       (simp_all add: SetMode_def Close_def logged_simps Let_def if_update)
  have b: "uint (BaudRate written) = mBaudRate mode" if "0 < mBaudRate mode" "mBaudRate mode < 2 ^ 32"
    using that assms(2) by (simp add: uint_word_of_int_u32)
  have d: "uint (ByteSize written) = mDataBits mode" if "0 < mDataBits mode" "mDataBits mode < 2 ^ 8"
    using that assms(2) by (simp add: uint_word_of_int_u8)
  have s: "uint (StopBits written) = mStopBits mode" if "0 \<le> mStopBits mode" "mStopBits mode < 2 ^ 8"
    using that assms(2) by (simp add: uint_word_of_int_u8)
  have q: "uint (Parity written) = mParity mode" if "0 \<le> mParity mode" "mParity mode < 2 ^ 8"
    using that assms(2) by (simp add: uint_word_of_int_u8)
  have u: "DCBlength written = DCBlength params \<and> Flags written = Flags params
          \<and> wReserved written = wReserved params \<and> XonLim written = XonLim params
          \<and> XoffLim written = XoffLim params \<and> XonChar written = XonChar params
          \<and> XoffChar written = XoffChar params \<and> ErrorChar written = ErrorChar params
          \<and> EofChar written = EofChar params \<and> EvtChar written = EvtChar params
          \<and> wReserved1 written = wReserved1 params"
    using assms(2) by simp
  show ?thesis
    using j u b d s q by blast
qed

text \<open>A line at 115200 baud, 8 data bits, on a device whose record a former user left
  at 1200 baud with seven data bits, even parity and RTS handshake.\<close>

theorem SetMode_written_record_witness:
  "GetCommState script_os (handle a_port) DCB_zero [GivesDCB left_dcb, Succeeds] =
     ((left_dcb, None), [Succeeds])
   \<and> SetCommState script_os (handle a_port)
        (left_dcb\<lparr>BaudRate := 115200, ByteSize := 8, StopBits := 0, Parity := 0\<rparr>) [Succeeds] =
        (None, [])
   \<and> snd (snd (SetMode (logged script_os) a_port a_mode ([GivesDCB left_dcb, Succeeds], []))) =
        [EvGetCommState (handle a_port) DCB_zero (left_dcb, None),
         EvSetCommState (handle a_port)
           (left_dcb\<lparr>BaudRate := 115200, ByteSize := 8, StopBits := 0, Parity := 0\<rparr>) None]
   \<and> uint (BaudRate (left_dcb\<lparr>BaudRate := 115200, ByteSize := 8, StopBits := 0, Parity := 0\<rparr>)) =
        mBaudRate a_mode
   \<and> uint (ByteSize (left_dcb\<lparr>BaudRate := 115200, ByteSize := 8, StopBits := 0, Parity := 0\<rparr>)) =
        mDataBits a_mode"
proof -
  have g: "GetCommState script_os (handle a_port) DCB_zero [GivesDCB left_dcb, Succeeds] =
     ((left_dcb, None), [Succeeds])"
    by (simp add: script_simps)
  have r: "left_dcb\<lparr>BaudRate := 115200, ByteSize := 8, StopBits := 0, Parity := 0\<rparr> =
     left_dcb\<lparr>BaudRate := (if mBaudRate a_mode = 0 then 9600 else word_of_int (mBaudRate a_mode)),
            ByteSize := (if mDataBits a_mode = 0 then 8 else word_of_int (mDataBits a_mode)),
            StopBits := word_of_int (mStopBits a_mode),
            Parity := word_of_int (mParity a_mode)\<rparr>"
    by (simp add: a_mode_def)
  have w: "SetCommState script_os (handle a_port)
        (left_dcb\<lparr>BaudRate := 115200, ByteSize := 8, StopBits := 0, Parity := 0\<rparr>) [Succeeds] =
        (None, [])"
    by (simp add: script_simps)
  show ?thesis
    using g w SetMode_written_record [OF g r w, of "[]"]
    by (simp add: a_mode_def)
qed

text \<open>The claim as it is written fails for a \<^verbatim>\<open>Mode\<close> with 256 data bits: the value
  is not 0, so the default 8 is not taken, and the byte written is 0, not 256.\<close>

theorem SetMode_written_record_counterexample:
  "snd (snd (SetMode (logged script_os) a_port wide_mode ([GivesDCB DCB_zero, Succeeds], []))) =
     [EvGetCommState 7 DCB_zero (DCB_zero, None),
      EvSetCommState 7 (DCB_zero\<lparr>BaudRate := 9600, ByteSize := 0\<rparr>) None]
   \<and> mDataBits wide_mode \<noteq> 0
   \<and> uint (ByteSize (DCB_zero\<lparr>BaudRate := 9600, ByteSize := 0\<rparr>)) \<noteq> mDataBits wide_mode
   \<and> uint (ByteSize (DCB_zero\<lparr>BaudRate := 9600, ByteSize := 0\<rparr>)) = 0"
  by (simp add: SetMode_def logged_simps script_simps a_port_def wide_mode_def DCB_zero_def)

section \<open>Opening a port: failure to apply the mode\<close>

text \<open>C4, as the code has it. When \<^verbatim>\<open>CreateFile\<close> succeeds and \<^verbatim>\<open>SetMode\<close> returns
  an error, \<^verbatim>\<open>OpenPort\<close> closes the handle and returns no port and the code
  \<^verbatim>\<open>ERROR_INVALID_SERIAL_PORT\<close>, the kind InvalidSerialPort, which is the code that
  \<^verbatim>\<open>SendBreak\<close> returns too; and whatever happens \<^verbatim>\<open>OpenPort\<close> returns either a port
  and no error or an error and no port.\<close>

theorem OpenPort_mode_failure:
  "(UTF16PtrFromString (device_path portName) = Inr path
    \<and> CreateFile os path (GENERIC_READ OR GENERIC_WRITE) 0 OPEN_EXISTING 0 w = (Inr h, w1)
    \<and> SetMode (logged os) \<lparr>handle = h\<rparr> mode
         (w1, t @ [EvCreateFile path (GENERIC_READ OR GENERIC_WRITE) 0 OPEN_EXISTING 0 (Inr h)]) =
         (Some e, (w2, t2))
    \<and> CloseHandle os h w2 = (c, w3) \<longrightarrow>
      OpenPort (logged os) portName mode (w, t) =
        ((None, Some (SerialPortError ERROR_INVALID_SERIAL_PORT)), (w3, t2 @ [EvCloseHandle h c]))
      \<and> spec_kind_of (SerialPortError ERROR_INVALID_SERIAL_PORT) = InvalidSerialPort)
   \<and> (fst (OpenPort os portName mode w) = (po, eo) \<longrightarrow> (po = None) = (eo \<noteq> None))"
proof -
  have a: "OpenPort (logged os) portName mode (w, t) =
           ((None, Some (SerialPortError ERROR_INVALID_SERIAL_PORT)), (w3, t2 @ [EvCloseHandle h c]))"
    if "UTF16PtrFromString (device_path portName) = Inr path"
      "CreateFile os path (GENERIC_READ OR GENERIC_WRITE) 0 OPEN_EXISTING 0 w = (Inr h, w1)"
      "SetMode (logged os) \<lparr>handle = h\<rparr> mode
         (w1, t @ [EvCreateFile path (GENERIC_READ OR GENERIC_WRITE) 0 OPEN_EXISTING 0 (Inr h)]) =
         (Some e, (w2, t2))"
      "CloseHandle os h w2 = (c, w3)"
    using that by (simp add: OpenPort_def logged_simps Close_def invalid_port_def)
  have b: "(po = None) = (eo \<noteq> None)" if "fst (OpenPort os portName mode w) = (po, eo)"
    using OpenPort_one_of_two [of os portName mode w] that by simp
  show ?thesis using a b by simp
qed

text \<open>The fetch of the control record fails with error 31, \<^verbatim>\<open>SetMode\<close> closes the
  handle, \<^verbatim>\<open>OpenPort\<close> closes it again (the platform then answers 6, invalid handle).\<close>

theorem OpenPort_mode_failure_witness:
  "UTF16PtrFromString (device_path ''COM3'') = Inr (device_path ''COM3'')
   \<and> CreateFile script_os (device_path ''COM3'') (GENERIC_READ OR GENERIC_WRITE) 0 OPEN_EXISTING 0
        [GivesHandle 7, Fails 31, Succeeds, Fails 6] = (Inr 7, [Fails 31, Succeeds, Fails 6])
   \<and> SetMode (logged script_os) \<lparr>handle = 7\<rparr> a_mode
         ([Fails 31, Succeeds, Fails 6],
          [] @ [EvCreateFile (device_path ''COM3'') (GENERIC_READ OR GENERIC_WRITE) 0 OPEN_EXISTING 0 (Inr 7)]) =
         (Some (SerialPortError ERROR_INVALID_SERIAL_PORT),
          ([Fails 6],
           [EvCreateFile (device_path ''COM3'') (GENERIC_READ OR GENERIC_WRITE) 0 OPEN_EXISTING 0 (Inr 7),
            EvGetCommState 7 DCB_zero (DCB_zero, Some 31), EvCloseHandle 7 None]))
   \<and> CloseHandle script_os 7 [Fails 6] = (Some 6, [])
   \<and> OpenPort (logged script_os) ''COM3'' a_mode ([GivesHandle 7, Fails 31, Succeeds, Fails 6], []) =
        ((None, Some (SerialPortError ERROR_INVALID_SERIAL_PORT)),
         ([], [EvCreateFile (device_path ''COM3'') (GENERIC_READ OR GENERIC_WRITE) 0 OPEN_EXISTING 0 (Inr 7),
            EvGetCommState 7 DCB_zero (DCB_zero, Some 31), EvCloseHandle 7 None, EvCloseHandle 7 (Some 6)]))"
proof -
  have p: "UTF16PtrFromString (device_path ''COM3'') = Inr (device_path ''COM3'')"
    by (simp add: UTF16PtrFromString_def backslash_def device_path_def)
  have c: "CreateFile script_os (device_path ''COM3'') (GENERIC_READ OR GENERIC_WRITE) 0 OPEN_EXISTING 0
        [GivesHandle 7, Fails 31, Succeeds, Fails 6] = (Inr 7, [Fails 31, Succeeds, Fails 6])"
    by (simp add: script_simps)
  have s: "SetMode (logged script_os) \<lparr>handle = 7\<rparr> a_mode
         ([Fails 31, Succeeds, Fails 6],
          [] @ [EvCreateFile (device_path ''COM3'') (GENERIC_READ OR GENERIC_WRITE) 0 OPEN_EXISTING 0 (Inr 7)]) =
         (Some (SerialPortError ERROR_INVALID_SERIAL_PORT),
          ([Fails 6],
           [EvCreateFile (device_path ''COM3'') (GENERIC_READ OR GENERIC_WRITE) 0 OPEN_EXISTING 0 (Inr 7),
            EvGetCommState 7 DCB_zero (DCB_zero, Some 31), EvCloseHandle 7 None]))"
    by (simp add: SetMode_def Close_def logged_simps script_simps)
  have k: "CloseHandle script_os 7 [Fails 6] = (Some 6, [])"
    by (simp add: script_simps)
  show ?thesis
    using p c s k
      OpenPort_mode_failure [where os = script_os and portName = "''COM3''" and mode = a_mode
        and path = "device_path ''COM3''" and t = "[]" and h = 7
        and w = "[GivesHandle 7, Fails 31, Succeeds, Fails 6]"
        and ?w1.0 = "[Fails 31, Succeeds, Fails 6]" and ?w2.0 = "[Fails 6]" and ?w3.0 = "[]"
        and c = "Some 6" and e = "SerialPortError ERROR_INVALID_SERIAL_PORT"
        and ?t2.0 = "[EvCreateFile (device_path ''COM3'') (GENERIC_READ OR GENERIC_WRITE) 0 OPEN_EXISTING 0 (Inr 7),
            EvGetCommState 7 DCB_zero (DCB_zero, Some 31), EvCloseHandle 7 None]"]
    by simp
qed

text \<open>The claim as it is written names the kind InvalidConfiguration: on this run the
  error is the one that \<^verbatim>\<open>SendBreak\<close> returns, of the kind InvalidSerialPort.\<close>

theorem OpenPort_mode_failure_counterexample:
  "fst (SetMode script_os \<lparr>handle = 7\<rparr> a_mode [Fails 31, Succeeds, Fails 6]) =
      Some (SerialPortError ERROR_INVALID_SERIAL_PORT)
   \<and> fst (OpenPort script_os ''COM3'' a_mode [GivesHandle 7, Fails 31, Succeeds, Fails 6]) =
      (None, Some (SerialPortError ERROR_INVALID_SERIAL_PORT))
   \<and> spec_kind_of (SerialPortError ERROR_INVALID_SERIAL_PORT) \<noteq> InvalidConfiguration
   \<and> fst (SendBreak script_os a_port 250 [Fails 31, Succeeds]) =
      Some (SerialPortError ERROR_INVALID_SERIAL_PORT)"
  by (simp add: OpenPort_def SetMode_def SendBreak_def Close_def script_simps invalid_port_def
      UTF16PtrFromString_def device_path_def backslash_def)

text \<open>C10. When \<^verbatim>\<open>SetMode\<close> returns an error inside \<^verbatim>\<open>OpenPort\<close>, the journal of
  \<^verbatim>\<open>SetMode\<close> ends with a close of the handle, \<^verbatim>\<open>OpenPort\<close> adds a second close of
  the same handle value, and these two are the only closes of the run.\<close>

theorem OpenPort_closes_twice:
  assumes "UTF16PtrFromString (device_path portName) = Inr path"
    and "CreateFile os path (GENERIC_READ OR GENERIC_WRITE) 0 OPEN_EXISTING 0 w = (Inr h, w1)"
    and "SetMode (logged os) \<lparr>handle = h\<rparr> mode
           (w1, t @ [EvCreateFile path (GENERIC_READ OR GENERIC_WRITE) 0 OPEN_EXISTING 0 (Inr h)]) =
           (Some e, (w2, t2))"
  shows "\<exists>evs c1 c2.
           t2 = t @ evs @ [EvCloseHandle h c1]
         \<and> snd (snd (OpenPort (logged os) portName mode (w, t))) =
             t @ evs @ [EvCloseHandle h c1, EvCloseHandle h c2]
         \<and> closes_of h (evs @ [EvCloseHandle h c1, EvCloseHandle h c2]) =
             [EvCloseHandle h c1, EvCloseHandle h c2]"
proof -
  let ?cf = "EvCreateFile path (GENERIC_READ OR GENERIC_WRITE) 0 OPEN_EXISTING 0 (Inr h)"
  from SetMode_journal [OF assms(3)]
  obtain evs c1 where t2: "t2 = (t @ [?cf]) @ evs @ [EvCloseHandle h c1]"
    and nc: "closes_of h evs = []"
    by auto
  obtain c2 w3 where cl: "CloseHandle os h w2 = (c2, w3)"
    by (cases "CloseHandle os h w2")
  have "OpenPort (logged os) portName mode (w, t) =
           ((None, Some (SerialPortError ERROR_INVALID_SERIAL_PORT)), (w3, t2 @ [EvCloseHandle h c2]))"
    using assms cl by (simp add: OpenPort_def logged_simps Close_def invalid_port_def)
  then have j: "snd (snd (OpenPort (logged os) portName mode (w, t))) =
      t @ (?cf # evs) @ [EvCloseHandle h c1, EvCloseHandle h c2]"
    by (simp add: t2)
  have k: "closes_of h ((?cf # evs) @ [EvCloseHandle h c1, EvCloseHandle h c2]) =
      [EvCloseHandle h c1, EvCloseHandle h c2]"
    by (simp add: closes_of_append nc)
  have t2': "t2 = t @ (?cf # evs) @ [EvCloseHandle h c1]"
    by (simp add: t2)
  show ?thesis
    using t2' j k by blast
qed

text \<open>The write of the control record fails with error 87.\<close>

theorem OpenPort_closes_twice_witness:
  "UTF16PtrFromString (device_path ''COM3'') = Inr (device_path ''COM3'')
   \<and> CreateFile script_os (device_path ''COM3'') (GENERIC_READ OR GENERIC_WRITE) 0 OPEN_EXISTING 0
        [GivesHandle 7, GivesDCB DCB_zero, Fails 87, Succeeds, Fails 6] =
        (Inr 7, [GivesDCB DCB_zero, Fails 87, Succeeds, Fails 6])
   \<and> fst (SetMode (logged script_os) \<lparr>handle = 7\<rparr> a_mode
         ([GivesDCB DCB_zero, Fails 87, Succeeds, Fails 6],
          [] @ [EvCreateFile (device_path ''COM3'') (GENERIC_READ OR GENERIC_WRITE) 0 OPEN_EXISTING 0 (Inr 7)])) =
         Some (SerialPortError ERROR_INVALID_SERIAL_PORT)
   \<and> (\<exists>evs c1 c2.
         snd (snd (OpenPort (logged script_os) ''COM3'' a_mode
            ([GivesHandle 7, GivesDCB DCB_zero, Fails 87, Succeeds, Fails 6], []))) =
           [] @ evs @ [EvCloseHandle 7 c1, EvCloseHandle 7 c2]
         \<and> closes_of 7 (evs @ [EvCloseHandle 7 c1, EvCloseHandle 7 c2]) =
             [EvCloseHandle 7 c1, EvCloseHandle 7 c2])"
proof -
  have p: "UTF16PtrFromString (device_path ''COM3'') = Inr (device_path ''COM3'')"
    by (simp add: UTF16PtrFromString_def backslash_def device_path_def)
  have c: "CreateFile script_os (device_path ''COM3'') (GENERIC_READ OR GENERIC_WRITE) 0 OPEN_EXISTING 0
        [GivesHandle 7, GivesDCB DCB_zero, Fails 87, Succeeds, Fails 6] =
        (Inr 7, [GivesDCB DCB_zero, Fails 87, Succeeds, Fails 6])"
    by (simp add: script_simps)
  obtain t2 where s: "SetMode (logged script_os) \<lparr>handle = 7\<rparr> a_mode
         ([GivesDCB DCB_zero, Fails 87, Succeeds, Fails 6],
          [] @ [EvCreateFile (device_path ''COM3'') (GENERIC_READ OR GENERIC_WRITE) 0 OPEN_EXISTING 0 (Inr 7)]) =
         (Some (SerialPortError ERROR_INVALID_SERIAL_PORT), ([Fails 6], t2))"
    by (simp add: SetMode_def Close_def logged_simps script_simps Let_def)
  from OpenPort_closes_twice [OF p c s] p c s show ?thesis
    by auto
qed

section \<open>Reading\<close>

lemma int_of_u32_pos: "0 < n \<Longrightarrow> 0 < int_of_u32 n"
  by (simp add: int_of_u32_def word_less_def)

lemma Read_loop_never_zero:
  assumes "Read_loop os port p params w = Some y"
  shows "snd (snd (fst y)) = None \<longrightarrow> 0 < fst (snd (fst y))"
proof (rule Read_loop.raw_induct
    [where P = "\<lambda>os port p params w y. snd (snd (fst y)) = None \<longrightarrow> 0 < fst (snd (fst y))",
      OF _ assms])
  fix f :: "'a os \<Rightarrow> SerialPort \<Rightarrow> u8 list \<Rightarrow> DCB \<Rightarrow> 'a \<Rightarrow> ((u8 list \<times> int \<times> error option) \<times> 'a) option"
  fix os port p params w y
  assume ih: "\<And>os port p params w y. f os port p params w = Some y \<Longrightarrow>
      snd (snd (fst y)) = None \<longrightarrow> 0 < fst (snd (fst y))"
  assume body: "(case ReadFile os (handle port) p w of
        ((p', readed, None), w1) \<Rightarrow>
          if 0 < readed then Some ((p', int_of_u32 readed, None), w1)
          else (case GetCommState os (handle port) params w1 of
                 ((params', x), w2) \<Rightarrow>
                   (case SetCommState os (handle port) params' w2 of
                      (None, w3) \<Rightarrow> f os port p' params' w3
                    | (Some err, w3) \<Rightarrow>
                        (case Close os port w3 of
                           (x, w4) \<Rightarrow> Some ((p', 0, Some (RawErrno err)), w4))))
      | ((p', readed, Some err), w1) \<Rightarrow> Some ((p', int_of_u32 readed, Some (RawErrno err)), w1)) =
      Some y"
  obtain p1 n re w1 where r: "ReadFile os (handle port) p w = ((p1, n, re), w1)"
    by (metis prod.exhaust)
  show "snd (snd (fst y)) = None \<longrightarrow> 0 < fst (snd (fst y))"
  proof (cases re)
    case (Some e)
    with body r show ?thesis by auto
  next
    case None
    show ?thesis
    proof (cases "0 < n")
      case True
      with body r None show ?thesis by (auto simp add: int_of_u32_pos)
    next
      case False
      obtain d ge w2 where g: "GetCommState os (handle port) params w1 = ((d, ge), w2)"
        by (metis prod.exhaust)
      obtain se w3 where s: "SetCommState os (handle port) d w2 = (se, w3)"
        by (metis prod.exhaust)
      show ?thesis
      proof (cases se)
        case None
        with body r \<open>re = None\<close> False g s have "f os port p1 d w3 = Some y" by simp
        then show ?thesis by (rule ih)
      next
        case (Some e)
        with body r \<open>re = None\<close> False g s show ?thesis
          by (auto split: prod.splits)
      qed
    qed
  qed
qed

lemma read_run_Cons:
  "read_run h p params (EvReadFile h1 q (p', n, re) # evs) r =
     (h1 = h \<and> q = p \<and>
          (case re of
             Some e \<Rightarrow> evs = [] \<and> r = (p', int_of_u32 n, Some (RawErrno e))
           | None \<Rightarrow>
               if 0 < n then evs = [] \<and> r = (p', int_of_u32 n, None)
               else
                 (case evs of
                    EvGetCommState h2 d (d', ge) # EvSetCommState h3 d'' se # evs' \<Rightarrow>
                      h2 = h \<and> d = params \<and> h3 = h \<and> d'' = d' \<and>
                      (case se of
                         Some e \<Rightarrow>
                           (case evs' of
                              [EvCloseHandle h4 c] \<Rightarrow> h4 = h \<and> r = (p', 0, Some (RawErrno e))
                            | _ \<Rightarrow> False)
                       | None \<Rightarrow> read_run h p' d' evs' r)
                  | _ \<Rightarrow> False)))"
  by simp

lemma read_run_idle:
  "read_run h p params
     (EvReadFile h p (p', 0, None) # EvGetCommState h params (d', ge) # EvSetCommState h d' None # evs) r =
   read_run h p' d' evs r"
  by simp

lemma Read_loop_run:
  assumes "Read_loop (logged os) port p params (w, t) = Some y"
  shows "\<exists>evs. snd (snd y) = t @ evs \<and> read_run (handle port) p params evs (fst y)"
proof -
  have "logged os = logged os \<longrightarrow>
      (\<forall>w' t'. (w, t) = (w', t') \<longrightarrow>
         (\<exists>evs. snd (snd y) = t' @ evs \<and> read_run (handle port) p params evs (fst y)))"
  proof (rule Read_loop.raw_induct
      [where P = "\<lambda>os' port p params s y. os' = logged os \<longrightarrow>
         (\<forall>w t. s = (w, t) \<longrightarrow>
            (\<exists>evs. snd (snd y) = t @ evs \<and> read_run (handle port) p params evs (fst y)))",
        OF _ assms], intro impI allI)
    fix f :: "('a \<times> event list) os \<Rightarrow> SerialPort \<Rightarrow> u8 list \<Rightarrow> DCB \<Rightarrow> 'a \<times> event list
      \<Rightarrow> ((u8 list \<times> int \<times> error option) \<times> 'a \<times> event list) option"
    fix os' port p params s y w t
    assume ih: "\<And>os' port p params s y. f os' port p params s = Some y \<Longrightarrow>
         os' = logged os \<longrightarrow>
         (\<forall>w t. s = (w, t) \<longrightarrow>
            (\<exists>evs. snd (snd y) = t @ evs \<and> read_run (handle port) p params evs (fst y)))"
    assume body: "(case ReadFile os' (handle port) p s of
        ((p', readed, None), w1) \<Rightarrow>
          if 0 < readed then Some ((p', int_of_u32 readed, None), w1)
          else (case GetCommState os' (handle port) params w1 of
                 ((params', x), w2) \<Rightarrow>
                   (case SetCommState os' (handle port) params' w2 of
                      (None, w3) \<Rightarrow> f os' port p' params' w3
                    | (Some err, w3) \<Rightarrow>
                        (case Close os' port w3 of
                           (x, w4) \<Rightarrow> Some ((p', 0, Some (RawErrno err)), w4))))
      | ((p', readed, Some err), w1) \<Rightarrow> Some ((p', int_of_u32 readed, Some (RawErrno err)), w1)) =
      Some y"
    assume os': "os' = logged os" and s: "s = (w, t)"
    obtain p1 n re w1 where r: "ReadFile os (handle port) p w = ((p1, n, re), w1)"
      by (metis prod.exhaust)
    obtain d ge w2 where g: "GetCommState os (handle port) params w1 = ((d, ge), w2)"
      by (metis prod.exhaust)
    obtain se w3 where st: "SetCommState os (handle port) d w2 = (se, w3)"
      by (metis prod.exhaust)
    obtain ce w4 where c: "CloseHandle os (handle port) w3 = (ce, w4)"
      by (metis prod.exhaust)
    let ?round = "[EvReadFile (handle port) p (p1, n, None), EvGetCommState (handle port) params (d, ge),
                    EvSetCommState (handle port) d None]"
    show "\<exists>evs. snd (snd y) = t @ evs \<and> read_run (handle port) p params evs (fst y)"
    proof (cases "re = None \<and> \<not> 0 < n \<and> se = None")
      case True
      with body os' s r g st have "f (logged os) port p1 d (w3, t @ ?round) = Some y"
        by (simp add: logged_simps)
      from ih [OF this] obtain evs where
        e: "snd (snd y) = (t @ ?round) @ evs" "read_run (handle port) p1 d evs (fst y)"
        by blast
      from True have n: "n = 0" by (simp add: word_greater_zero_iff)
      have "snd (snd y) = t @ (?round @ evs)" using e(1) by simp
      moreover have "read_run (handle port) p params (?round @ evs) (fst y)"
        using e(2) n by simp
      ultimately show ?thesis by blast
    next
      case False
      then consider e where "re = Some e" | "re = None" "0 < n"
        | e where "re = None" "\<not> 0 < n" "se = Some e"
        by (cases re; cases se) auto
      then show ?thesis
      proof cases
        case 1
        with body os' s r have "y = ((p1, int_of_u32 n, Some (RawErrno e)),
            (w1, t @ [EvReadFile (handle port) p (p1, n, Some e)]))"
          by (simp add: logged_simps)
        then show ?thesis by simp
      next
        case 2
        with body os' s r have "y = ((p1, int_of_u32 n, None),
            (w1, t @ [EvReadFile (handle port) p (p1, n, None)]))"
          by (simp add: logged_simps)
        with 2 show ?thesis by simp
      next
        case 3
        with body os' s r g st c have "y = ((p1, 0, Some (RawErrno e)),
            (w4, t @ [EvReadFile (handle port) p (p1, n, None), EvGetCommState (handle port) params (d, ge),
                    EvSetCommState (handle port) d (Some e), EvCloseHandle (handle port) ce]))"
          by (simp add: logged_simps Close_def)
        with 3 show ?thesis by simp
      qed
    qed
  qed
  then show ?thesis by simp
qed



lemma read_run_after_idle:
  assumes "(case rest of
              EvGetCommState h2 d (d', ge) # EvSetCommState h3 d'' se # evs' \<Rightarrow> Q h2 d d' ge h3 d'' se evs'
            | _ \<Rightarrow> False)"
  obtains h2 d d' ge h3 d'' se evs' where
    "rest = EvGetCommState h2 d (d', ge) # EvSetCommState h3 d'' se # evs'"
    "Q h2 d d' ge h3 d'' se evs'"
proof (cases rest)
  case Nil
  with assms show ?thesis by simp
next
  case c1: (Cons ev2 rest2)
  show ?thesis
  proof (cases ev2)
    case (EvGetCommState h2 d res)
    obtain d' ge where res: "res = (d', ge)" by (cases res)
    show ?thesis
    proof (cases rest2)
      case Nil
      with assms c1 EvGetCommState res show ?thesis by simp
    next
      case c2: (Cons ev3 rest3)
      show ?thesis
      proof (cases ev3)
        case (EvSetCommState h3 d'' se)
        with assms c1 c2 EvGetCommState res that [of h2 d d' ge h3 d'' se rest3]
        show ?thesis by simp
      qed (use assms c1 c2 EvGetCommState res in simp_all)
    qed
  qed (use assms c1 in simp_all)
qed

lemma read_run_after_gone:
  assumes "(case evs' of [EvCloseHandle h4 c] \<Rightarrow> Q h4 c | _ \<Rightarrow> False)"
  obtains h4 c where "evs' = [EvCloseHandle h4 c]" "Q h4 c"
proof (cases evs')
  case Nil
  with assms show ?thesis by simp
next
  case c1: (Cons ev rest)
  show ?thesis
  proof (cases ev)
    case (EvCloseHandle h4 c)
    with assms c1 that [of h4 c] show ?thesis by (cases rest) simp_all
  qed (use assms c1 in simp_all)
qed

lemma read_run_cases:
  assumes "read_run h p params evs r"
  obtains (failed) p' n e where
      "evs = [EvReadFile h p (p', n, Some e)]" "r = (p', int_of_u32 n, Some (RawErrno e))"
  | (got) p' n where
      "evs = [EvReadFile h p (p', n, None)]" "0 < n" "r = (p', int_of_u32 n, None)"
  | (gone) p' d' ge e c where
      "evs = [EvReadFile h p (p', 0, None), EvGetCommState h params (d', ge),
              EvSetCommState h d' (Some e), EvCloseHandle h c]"
      "r = (p', 0, Some (RawErrno e))"
  | (idle) p' d' ge evs' where
      "evs = EvReadFile h p (p', 0, None) # EvGetCommState h params (d', ge)
               # EvSetCommState h d' None # evs'"
      "read_run h p' d' evs' r"
proof (cases evs)
  case Nil
  with assms show ?thesis by simp
next
  case (Cons ev rest)
  show ?thesis
  proof (cases ev)
    case (EvReadFile h1 q res)
    obtain p' n re where res: "res = (p', n, re)" by (cases res)
    from assms Cons EvReadFile res have hq: "h1 = h" "q = p" by simp_all
    show ?thesis
    proof (cases re)
      case (Some e)
      with assms Cons EvReadFile res hq show ?thesis by (intro failed [of p' n e]) simp_all
    next
      case None
      show ?thesis
      proof (cases "0 < n")
        case True
        with assms Cons EvReadFile res hq None show ?thesis by (intro got [of p' n]) simp_all
      next
        case False
        then have n: "n = 0" by (simp add: word_greater_zero_iff)
        from assms Cons EvReadFile res hq None n
        have "(case rest of
                    EvGetCommState h2 d (d', ge) # EvSetCommState h3 d'' se # evs' \<Rightarrow>
                      h2 = h \<and> d = params \<and> h3 = h \<and> d'' = d' \<and>
                      (case se of
                         Some e \<Rightarrow>
                           (case evs' of
                              [EvCloseHandle h4 c] \<Rightarrow> h4 = h \<and> r = (p', 0, Some (RawErrno e))
                            | _ \<Rightarrow> False)
                       | None \<Rightarrow> read_run h p' d' evs' r)
                  | _ \<Rightarrow> False)"
          by simp
        then obtain h2 d d' ge h3 d'' se evs' where
          rest: "rest = EvGetCommState h2 d (d', ge) # EvSetCommState h3 d'' se # evs'"
          and eqs: "h2 = h \<and> d = params \<and> h3 = h \<and> d'' = d'"
          and tail: "(case se of
                         Some e \<Rightarrow>
                           (case evs' of
                              [EvCloseHandle h4 c] \<Rightarrow> h4 = h \<and> r = (p', 0, Some (RawErrno e))
                            | _ \<Rightarrow> False)
                       | None \<Rightarrow> read_run h p' d' evs' r)"
          by (rule read_run_after_idle) blast
        show ?thesis
        proof (cases se)
          case None
          with tail eqs rest Cons EvReadFile res hq \<open>re = None\<close> n show ?thesis
            by (intro idle [of p' d' ge evs']) simp_all
        next
          case (Some e)
          with tail have "(case evs' of
                              [EvCloseHandle h4 c] \<Rightarrow> h4 = h \<and> r = (p', 0, Some (RawErrno e))
                            | _ \<Rightarrow> False)"
            by simp
          then obtain h4 c where "evs' = [EvCloseHandle h4 c]"
            "h4 = h \<and> r = (p', 0, Some (RawErrno e))"
            by (rule read_run_after_gone)
          with Some eqs rest Cons EvReadFile res hq \<open>re = None\<close> n show ?thesis
            by (intro gone [of p' d' ge e c]) simp_all
        qed
      qed
    qed
  qed (use assms Cons in simp_all)
qed

lemma read_run_shape:
  "read_run h p params evs r \<Longrightarrow>
     (snd (snd r) = None \<longrightarrow> 0 < fst (snd r))
   \<and> (list_ex read_failed evs \<longrightarrow>
        closes_of h evs = []
        \<and> (\<exists>q p' n e. last evs = EvReadFile h q (p', n, Some e)
              \<and> r = (p', int_of_u32 n, Some (RawErrno e))))
   \<and> (closes_of h evs \<noteq> [] \<longrightarrow>
        (\<exists>pre d e c. fst (snd r) = 0 \<and> snd (snd r) = Some (RawErrno e)
           \<and> evs = pre @ [EvSetCommState h d (Some e), EvCloseHandle h c]))"
proof (induction evs arbitrary: p params rule: length_induct)
  case (1 evs)
  from "1.prems" show ?case
  proof (cases rule: read_run_cases)
    case (failed p' n e)
    then show ?thesis by simp
  next
    case (got p' n)
    then show ?thesis by (simp add: int_of_u32_pos)
  next
    case (gone p' d' ge e c)
    have "evs = [EvReadFile h p (p', 0, None), EvGetCommState h params (d', ge)]
        @ [EvSetCommState h d' (Some e), EvCloseHandle h c]"
      using gone(1) by simp
    with gone show ?thesis by (simp del: append.simps)
  next
    case (idle p' d' ge evs')
    let ?round = "[EvReadFile h p (p', 0, None), EvGetCommState h params (d', ge),
        EvSetCommState h d' None]"
    have evs: "evs = ?round @ evs'" using idle(1) by simp
    have "length evs' < length evs" using idle(1) by simp
    with "1.IH" idle(2) have ih:
      "(snd (snd r) = None \<longrightarrow> 0 < fst (snd r))
       \<and> (list_ex read_failed evs' \<longrightarrow>
            closes_of h evs' = []
            \<and> (\<exists>q p' n e. last evs' = EvReadFile h q (p', n, Some e)
                  \<and> r = (p', int_of_u32 n, Some (RawErrno e))))
       \<and> (closes_of h evs' \<noteq> [] \<longrightarrow>
            (\<exists>pre d e c. fst (snd r) = 0 \<and> snd (snd r) = Some (RawErrno e)
               \<and> evs' = pre @ [EvSetCommState h d (Some e), EvCloseHandle h c]))"
      by blast
    have ne: "evs' \<noteq> []" using idle(2) by (cases evs') simp_all
    have a: "list_ex read_failed evs = list_ex read_failed evs'"
      and b: "closes_of h evs = closes_of h evs'"
      and c: "last evs = last evs'"
      using ne by (simp_all add: idle(1))
    have d: "\<exists>pre. evs = pre @ [x, y]" if "evs' = pre' @ [x, y]" for pre' x y
      using that evs by (intro exI [of _ "?round @ pre'"]) simp
    show ?thesis
      unfolding a b c using ih d by blast
  qed
qed

text \<open>C1, as the code has it. When the blocking read succeeds with 0 bytes, \<^verbatim>\<open>Read\<close>
  calls \<^verbatim>\<open>GetCommState\<close> on the handle and then \<^verbatim>\<open>SetCommState\<close> with the very
  record that the fetch left in the buffer. The result of the fetch is not looked at: the
  write-back alone decides. If the write-back fails, \<^verbatim>\<open>Read\<close> closes the handle and
  returns 0 bytes with the error of the write-back; if it succeeds, \<^verbatim>\<open>Read\<close> goes on
  with the next blocking read, which is the same loop from the new state.\<close>

theorem Read_idle_probe:
  assumes "ReadFile os (handle port) p w = ((p1, 0, None), w1)"
    and "GetCommState os (handle port) params w1 = ((params1, ge), w2)"
    and "SetCommState os (handle port) params1 w2 = (se, w3)"
    and "CloseHandle os (handle port) w3 = (ce, w4)"
    and "probe = [EvReadFile (handle port) p (p1, 0, None),
                  EvGetCommState (handle port) params (params1, ge),
                  EvSetCommState (handle port) params1 se]"
  shows "Read_loop (logged os) port p params (w, t) =
     (case se of
        Some e \<Rightarrow> Some ((p1, 0, Some (RawErrno e)), (w4, t @ probe @ [EvCloseHandle (handle port) ce]))
      | None \<Rightarrow> Read_loop (logged os) port p1 params1 (w3, t @ probe))"
  using assms
  by (subst Read_loop.simps) (simp add: logged_simps Close_def split: option.split)

text \<open>An idle line whose device has gone: the write-back fails with error 31.\<close>

theorem Read_idle_probe_witness:
  "ReadFile script_os (handle a_port) [0, 0, 0] [GivesBytes [], GivesDCB left_dcb, Fails 31, Succeeds] =
     (([0, 0, 0], 0, None), [GivesDCB left_dcb, Fails 31, Succeeds])
   \<and> GetCommState script_os (handle a_port) DCB_zero [GivesDCB left_dcb, Fails 31, Succeeds] =
     ((left_dcb, None), [Fails 31, Succeeds])
   \<and> SetCommState script_os (handle a_port) left_dcb [Fails 31, Succeeds] = (Some 31, [Succeeds])
   \<and> CloseHandle script_os (handle a_port) [Succeeds] = (None, [])
   \<and> Read_loop (logged script_os) a_port [0, 0, 0] DCB_zero
         ([GivesBytes [], GivesDCB left_dcb, Fails 31, Succeeds], []) =
       Some (([0, 0, 0], 0, Some (RawErrno 31)),
             ([], [EvReadFile (handle a_port) [0, 0, 0] ([0, 0, 0], 0, None),
                   EvGetCommState (handle a_port) DCB_zero (left_dcb, None),
                   EvSetCommState (handle a_port) left_dcb (Some 31),
                   EvCloseHandle (handle a_port) None]))
   \<and> Read_loop (logged script_os) a_port [0, 0, 0] DCB_zero
         ([GivesBytes [], GivesDCB left_dcb, Succeeds, GivesBytes [1, 2, 3]], []) =
       Read_loop (logged script_os) a_port [0, 0, 0] left_dcb
         ([GivesBytes [1, 2, 3]],
          [EvReadFile (handle a_port) [0, 0, 0] ([0, 0, 0], 0, None),
           EvGetCommState (handle a_port) DCB_zero (left_dcb, None),
           EvSetCommState (handle a_port) left_dcb None])"
proof -
  have r: "ReadFile script_os (handle a_port) [0, 0, 0] (GivesBytes [] # rs) =
     (([0, 0, 0], 0, None), rs)" for rs
    by (simp add: script_simps)
  have g: "GetCommState script_os (handle a_port) DCB_zero (GivesDCB left_dcb # rs) =
     ((left_dcb, None), rs)" for rs
    by (simp add: script_simps)
  have s: "SetCommState script_os (handle a_port) left_dcb [Fails 31, Succeeds] = (Some 31, [Succeeds])"
    by (simp add: script_simps)
  have c: "CloseHandle script_os (handle a_port) [Succeeds] = (None, [])"
    by (simp add: script_simps)
  have s': "SetCommState script_os (handle a_port) left_dcb [Succeeds, GivesBytes [1, 2, 3]] =
     (None, [GivesBytes [1, 2, 3]])"
    by (simp add: script_simps)
  have c': "CloseHandle script_os (handle a_port) [GivesBytes [1, 2, 3]] =
     (Some ERROR_INVALID_HANDLE, [GivesBytes [1, 2, 3]])"
    by (simp add: script_simps)
  show ?thesis
    using r g s c Read_idle_probe [OF r g s c refl, of "[]"] Read_idle_probe [OF r g s' c' refl, of "[]"]
    by simp
qed

text \<open>The claim as it is written fails when the fetch fails and the write-back succeeds:
  the round-trip has failed (nothing was fetched, and the record written back is the zero
  record of the buffer), yet \<^verbatim>\<open>Read\<close> closes nothing, returns no error and goes on to
  the next read, which here brings three bytes.\<close>

theorem Read_idle_probe_counterexample:
  "Read (logged script_os) a_port [0, 0, 0]
       ([GivesBytes [], Fails 31, Succeeds, GivesBytes [1, 2, 3]], []) =
     Some (([1, 2, 3], 3, None),
           ([], [EvReadFile 7 [0, 0, 0] ([0, 0, 0], 0, None),
                 EvGetCommState 7 DCB_zero (DCB_zero, Some 31),
                 EvSetCommState 7 DCB_zero None,
                 EvReadFile 7 [0, 0, 0] ([1, 2, 3], 3, None)]))
   \<and> closes_of 7 [EvReadFile 7 [0, 0, 0] ([0, 0, 0], 0, None),
                 EvGetCommState 7 DCB_zero (DCB_zero, Some 31),
                 EvSetCommState 7 DCB_zero None,
                 EvReadFile 7 [0, 0, 0] ([1, 2, 3], 3, None)] = []"
  by (simp add: Read_def Read_loop.simps logged_simps script_simps a_port_def int_of_u32_def)

text \<open>C2. If the blocking read fails, \<^verbatim>\<open>Read\<close> returns its count and its error at
  once: the journal of the call ends with that \<^verbatim>\<open>ReadFile\<close>, so there is neither a
  retry nor a close. If the blocking read succeeds with more than 0 bytes, \<^verbatim>\<open>Read\<close>
  returns that count, which is positive, and no error. Both hold from every state of the
  loop, hence at every iteration. No run of the loop returns without an error and with a
  count that is not positive: \<^verbatim>\<open>Read\<close> never returns \<^verbatim>\<open>(0, nil)\<close>. And of a whole
  run that returns: its journal is a journal of \<open>read_run\<close>; if a blocking read of the
  run has failed, it is the last call of the run, the run has closed nothing, and the
  result is the count and the error of that read.\<close>

theorem Read_outcomes:
  "(ReadFile os (handle port) p w = ((p1, n, Some e), w1) \<longrightarrow>
      Read_loop (logged os) port p params (w, t) =
        Some ((p1, int_of_u32 n, Some (RawErrno e)),
              (w1, t @ [EvReadFile (handle port) p (p1, n, Some e)])))
   \<and> (ReadFile os (handle port) p w = ((p1, n, None), w1) \<and> 0 < n \<longrightarrow>
      Read_loop (logged os) port p params (w, t) =
        Some ((p1, int_of_u32 n, None), (w1, t @ [EvReadFile (handle port) p (p1, n, None)]))
      \<and> 0 < int_of_u32 n)
   \<and> (Read_loop os port p params w = Some ((p2, k, None), w2) \<longrightarrow> 0 < k)
   \<and> (Read_loop (logged os) port p params (w, t) = Some (r, (w3, t3)) \<longrightarrow>
        (\<exists>evs. t3 = t @ evs \<and> read_run (handle port) p params evs r
           \<and> (list_ex read_failed evs \<longrightarrow>
                closes_of (handle port) evs = []
                \<and> (\<exists>q p' m e'. last evs = EvReadFile (handle port) q (p', m, Some e')
                      \<and> r = (p', int_of_u32 m, Some (RawErrno e'))))))"
proof -
  have a: "Read_loop (logged os) port p params (w, t) =
        Some ((p1, int_of_u32 n, Some (RawErrno e)),
              (w1, t @ [EvReadFile (handle port) p (p1, n, Some e)]))"
    if "ReadFile os (handle port) p w = ((p1, n, Some e), w1)"
    using that by (subst Read_loop.simps) (simp add: logged_simps)
  have b: "Read_loop (logged os) port p params (w, t) =
        Some ((p1, int_of_u32 n, None), (w1, t @ [EvReadFile (handle port) p (p1, n, None)]))"
    if "ReadFile os (handle port) p w = ((p1, n, None), w1)" "0 < n"
    using that by (subst Read_loop.simps) (simp add: logged_simps)
  have c: "0 < k" if "Read_loop os port p params w = Some ((p2, k, None), w2)"
    using Read_loop_never_zero [OF that] by simp
  have d: "\<exists>evs. t3 = t @ evs \<and> read_run (handle port) p params evs r
           \<and> (list_ex read_failed evs \<longrightarrow>
                closes_of (handle port) evs = []
                \<and> (\<exists>q p' m e'. last evs = EvReadFile (handle port) q (p', m, Some e')
                      \<and> r = (p', int_of_u32 m, Some (RawErrno e'))))"
    if "Read_loop (logged os) port p params (w, t) = Some (r, (w3, t3))"
  proof -
    from Read_loop_run [OF that] obtain evs where
      e: "t3 = t @ evs" "read_run (handle port) p params evs r"
      by auto
    from read_run_shape [OF e(2)] e show ?thesis by blast
  qed
  show ?thesis
    using a b c d int_of_u32_pos by blast
qed

text \<open>A failed read; a read of two bytes; a read that comes after one idle round; a read
  that fails after one idle round.\<close>

theorem Read_outcomes_witness:
  "Read_loop (logged script_os) a_port [0, 0, 0] DCB_zero ([Fails 31], []) =
     Some (([0, 0, 0], 0, Some (RawErrno 31)), ([], [EvReadFile 7 [0, 0, 0] ([0, 0, 0], 0, Some 31)]))
   \<and> Read_loop (logged script_os) a_port [0, 0, 0] DCB_zero ([GivesBytes [1, 2]], []) =
     Some (([1, 2, 0], 2, None), ([], [EvReadFile 7 [0, 0, 0] ([1, 2, 0], 2, None)]))
   \<and> Read_loop script_os a_port [0, 0, 0] DCB_zero
        [GivesBytes [], GivesDCB left_dcb, Succeeds, GivesBytes [1, 2, 3]] =
     Some (([1, 2, 3], 3, None), [])
   \<and> (0 :: int) < 3
   \<and> Read_loop (logged script_os) a_port [0, 0, 0] DCB_zero
        ([GivesBytes [], GivesDCB left_dcb, Succeeds, Fails 31], []) =
     Some (([0, 0, 0], 0, Some (RawErrno 31)),
       ([], [EvReadFile 7 [0, 0, 0] ([0, 0, 0], 0, None), EvGetCommState 7 DCB_zero (left_dcb, None),
             EvSetCommState 7 left_dcb None, EvReadFile 7 [0, 0, 0] ([0, 0, 0], 0, Some 31)]))
   \<and> read_run 7 [0, 0, 0] DCB_zero
        [EvReadFile 7 [0, 0, 0] ([0, 0, 0], 0, None), EvGetCommState 7 DCB_zero (left_dcb, None),
         EvSetCommState 7 left_dcb None, EvReadFile 7 [0, 0, 0] ([0, 0, 0], 0, Some 31)]
        ([0, 0, 0], 0, Some (RawErrno 31))
   \<and> closes_of 7
        [EvReadFile 7 [0, 0, 0] ([0, 0, 0], 0, None), EvGetCommState 7 DCB_zero (left_dcb, None),
         EvSetCommState 7 left_dcb None, EvReadFile 7 [0, 0, 0] ([0, 0, 0], 0, Some 31)] = []"
proof -
  have c: "Read_loop script_os a_port [0, 0, 0] DCB_zero
        [GivesBytes [], GivesDCB left_dcb, Succeeds, GivesBytes [1, 2, 3]] =
     Some (([1, 2, 3], 3, None), [])"
    by (simp add: Read_loop.simps script_simps int_of_u32_def)
  have d: "Read_loop (logged script_os) a_port [0, 0, 0] DCB_zero
        ([GivesBytes [], GivesDCB left_dcb, Succeeds, Fails 31], []) =
     Some (([0, 0, 0], 0, Some (RawErrno 31)),
       ([], [EvReadFile 7 [0, 0, 0] ([0, 0, 0], 0, None), EvGetCommState 7 DCB_zero (left_dcb, None),
             EvSetCommState 7 left_dcb None, EvReadFile 7 [0, 0, 0] ([0, 0, 0], 0, Some 31)]))"
    by (simp add: Read_loop.simps logged_simps script_simps a_port_def int_of_u32_def)
  show ?thesis
    using c d
      Read_outcomes [where os = script_os and port = a_port and p = "[0, 0, 0]" and w = "[Fails 31]"
        and ?p1.0 = "[0, 0, 0]" and n = 0 and e = 31 and ?w1.0 = "[]" and params = DCB_zero and t = "[]"]
      Read_outcomes [where os = script_os and port = a_port and p = "[0, 0, 0]"
        and w = "[GivesBytes [1, 2]]" and ?p1.0 = "[1, 2, 0]" and n = 2 and ?w1.0 = "[]"
        and params = DCB_zero and t = "[]"]
      Read_outcomes [where os = script_os and port = a_port and p = "[0, 0, 0]"
        and w = "[GivesBytes [], GivesDCB left_dcb, Succeeds, GivesBytes [1, 2, 3]]"
        and ?p2.0 = "[1, 2, 3]" and k = 3 and ?w2.0 = "[]" and params = DCB_zero]
      Read_outcomes [where os = script_os and port = a_port and p = "[0, 0, 0]"
        and w = "[GivesBytes [], GivesDCB left_dcb, Succeeds, Fails 31]" and t = "[]"
        and params = DCB_zero and r = "([0, 0, 0], 0, Some (RawErrno 31))" and ?w3.0 = "[]"
        and ?t3.0 = "[EvReadFile 7 [0, 0, 0] ([0, 0, 0], 0, None),
             EvGetCommState 7 DCB_zero (left_dcb, None),
             EvSetCommState 7 left_dcb None, EvReadFile 7 [0, 0, 0] ([0, 0, 0], 0, Some 31)]"]
    by (simp add: script_simps a_port_def int_of_u32_def)
qed

section \<open>The policy that OpenPort lays over the control record\<close>

lemmas DCB_flag_defs = DCB_BINARY_def DCB_PARITY_def DCB_OUT_X_CTS_FLOW_def DCB_OUT_X_DSR_FLOW_def
  DCB_DTR_CONTROL_ENABLE_def DCB_DTR_CONTROL_HANDSHAKE_def DCB_DSR_SENSITIVITY_def
  DCB_TX_CONTINUE_ON_XOFF_def DCB_OUT_X_def DCB_IN_X_def DCB_ERROR_CHAR_def DCB_NULL_def
  DCB_RTS_CONTROL_ENABLE_def DCB_RTS_CONTROL_HANDSHAKE_def DCB_RTS_CONTROL_TOGGLE_def
  DCB_ABORT_ON_ERROR_def

lemma open_overlay_fields:
  "XonLim (open_overlay d) = 2048" "XoffLim (open_overlay d) = 512"
  "XonChar (open_overlay d) = 0x11" "XoffChar (open_overlay d) = 0x13"
  "BaudRate (open_overlay d) = BaudRate d" "ByteSize (open_overlay d) = ByteSize d"
  "Parity (open_overlay d) = Parity d" "StopBits (open_overlay d) = StopBits d"
  by (simp_all add: open_overlay_def Let_def)

lemma open_overlay_bits:
  "\<not> bit (Flags (open_overlay d)) 2" "\<not> bit (Flags (open_overlay d)) 3"
  "bit (Flags (open_overlay d)) 4" "bit (Flags (open_overlay d)) 12"
  "bit (Flags (open_overlay d)) 5 = bit (Flags d) 5"
  "bit (Flags (open_overlay d)) 13 = bit (Flags d) 13"
  by (simp_all add: open_overlay_def Let_def DCB_flag_defs bit_simps)

lemma OpenPort_success_journal_case:
  "(case OpenPort (logged os) portName mode (w, t) of
      ((None, e), s) \<Rightarrow> True
    | ((Some port, e), (w', t')) \<Rightarrow>
        (\<exists>path w1 w2 t2 d0.
           SetMode (logged os) port mode
             (w1, t @ [EvCreateFile path (GENERIC_READ OR GENERIC_WRITE) 0 OPEN_EXISTING 0
                         (Inr (handle port))]) = (None, (w2, t2))
         \<and> t' = t2 @
           [EvGetCommState (handle port) DCB_zero (d0, None),
            EvSetCommState (handle port) (open_overlay d0) None,
            EvSetCommTimeouts (handle port) open_timeouts None]))"
  apply (simp add: OpenPort_def logged_simps Close_def invalid_port_def Let_def
      split: sum.split prod.split option.split)
  apply blast
  done

lemma OpenPort_success_journal:
  assumes "OpenPort (logged os) portName mode (w, t) = ((Some port, e), (w', t'))"
  shows "\<exists>evs d0. t' = t @ evs @
           [EvGetCommState (handle port) DCB_zero (d0, None),
            EvSetCommState (handle port) (open_overlay d0) None,
            EvSetCommTimeouts (handle port) open_timeouts None]"
proof -
  from OpenPort_success_journal_case [where os = os and portName = portName and mode = mode
      and w = w and t = t] assms
  obtain path w1 w2 t2 d0 where
    sm: "SetMode (logged os) port mode
             (w1, t @ [EvCreateFile path (GENERIC_READ OR GENERIC_WRITE) 0 OPEN_EXISTING 0
                         (Inr (handle port))]) = (None, (w2, t2))"
    and t': "t' = t2 @
           [EvGetCommState (handle port) DCB_zero (d0, None),
            EvSetCommState (handle port) (open_overlay d0) None,
            EvSetCommTimeouts (handle port) open_timeouts None]"
    by auto
  from SetMode_journal [OF sm] obtain evs where "t2 = t @ evs"
    by auto
  with t' show ?thesis by simp
qed

text \<open>What holds of every successful \<^verbatim>\<open>OpenPort\<close>: the last three calls are the fetch
  of the control record, the write of that record under the overlay, and the write of the
  fixed timeouts. In the record written the CTS and DSR gating bits (2 and 3) are off, the
  low bits of the DTR and RTS fields (4 and 12) are on, and the four XON/XOFF values are the
  fixed ones; but the high bits of the DTR and RTS fields (5 and 13) are those of the
  record that was fetched.\<close>

lemma OpenPort_success_policy:
  assumes "OpenPort (logged os) portName mode (w, t) = ((Some port, e), (w', t'))"
  shows "\<exists>evs d0 written. t' = t @ evs @
           [EvGetCommState (handle port) DCB_zero (d0, None),
            EvSetCommState (handle port) written None,
            EvSetCommTimeouts (handle port) open_timeouts None]
       \<and> written = open_overlay d0
       \<and> \<not> bit (Flags written) 2 \<and> \<not> bit (Flags written) 3
       \<and> bit (Flags written) 4 \<and> bit (Flags written) 12
       \<and> bit (Flags written) 5 = bit (Flags d0) 5
       \<and> bit (Flags written) 13 = bit (Flags d0) 13
       \<and> XonLim written = 2048 \<and> XoffLim written = 512
       \<and> XonChar written = 0x11 \<and> XoffChar written = 0x13"
  using OpenPort_success_journal [OF assms] open_overlay_bits open_overlay_fields(1-4)
  by blast

lemma open_timeouts_fields:
  "ReadIntervalTimeout open_timeouts = 0xFFFFFFFF"
  "ReadTotalTimeoutMultiplier open_timeouts = 0xFFFFFFFF"
  "ReadTotalTimeoutConstant open_timeouts = 1000"
  "WriteTotalTimeoutMultiplier open_timeouts = 0"
  "WriteTotalTimeoutConstant open_timeouts = 0"
  by (simp_all add: open_timeouts_def)

text \<open>C6 at a device that a former user left with RTS in handshake mode
  (\<^verbatim>\<open>fRtsControl\<close> = 2). \<^verbatim>\<open>OpenPort\<close> succeeds, and the control record it writes has
  \<^verbatim>\<open>fRtsControl\<close> = 3, the toggle mode, not 1, the enabled mode: the statement
  \<^verbatim>\<open>params.Flags |= DCB_RTS_CONTROL_ENABLE | DCB_DTR_CONTROL_ENABLE\<close> sets the low bit
  of each two-bit field and leaves the high bit as it was; the masks
  \<^verbatim>\<open>DCB_RTS_CONTROL_DISABLE_MASK\<close> and \<^verbatim>\<open>DCB_DTR_CONTROL_DISABLE_MASK\<close> that would clear
  the fields are declared in the file and never applied.\<close>

theorem OpenPort_rts_toggle:
  "fst (OpenPort (logged script_os) ''COM3'' a_mode
      ([GivesHandle 7, GivesDCB left_dcb, Succeeds,
        GivesDCB (left_dcb\<lparr>BaudRate := 115200, ByteSize := 8, StopBits := 0, Parity := 0\<rparr>),
        Succeeds, Succeeds], [])) = (Some \<lparr>handle = 7\<rparr>, None)
   \<and> drop 3 (snd (snd (OpenPort (logged script_os) ''COM3'' a_mode
      ([GivesHandle 7, GivesDCB left_dcb, Succeeds,
        GivesDCB (left_dcb\<lparr>BaudRate := 115200, ByteSize := 8, StopBits := 0, Parity := 0\<rparr>),
        Succeeds, Succeeds], [])))) =
      [EvGetCommState 7 DCB_zero
         (left_dcb\<lparr>BaudRate := 115200, ByteSize := 8, StopBits := 0, Parity := 0\<rparr>, None),
       EvSetCommState 7
         (left_dcb\<lparr>BaudRate := 115200, ByteSize := 8, StopBits := 0, Parity := 0, Flags := 0x3091,
            XonLim := 2048, XoffLim := 512, XonChar := 17, XoffChar := 19\<rparr>) None,
       EvSetCommTimeouts 7 open_timeouts None]
   \<and> Flags left_dcb AND NOT DCB_RTS_CONTROL_DISABLE_MASK = DCB_RTS_CONTROL_HANDSHAKE
   \<and> 0x3091 AND NOT DCB_RTS_CONTROL_DISABLE_MASK = DCB_RTS_CONTROL_TOGGLE
   \<and> DCB_RTS_CONTROL_TOGGLE \<noteq> DCB_RTS_CONTROL_ENABLE
   \<and> fRtsControl (Flags left_dcb) = 2
   \<and> fRtsControl 0x3091 = 3"
  apply (simp add: OpenPort_def SetMode_def Close_def logged_simps script_simps
      UTF16PtrFromString_def device_path_def backslash_def Let_def a_mode_def)
  apply (simp add: open_overlay_def Let_def left_dcb_def DCB_zero_def DCB_flag_defs fRtsControl_def
      DCB_RTS_CONTROL_DISABLE_MASK_def)
  done

section \<open>Operations on a closed port\<close>

lemma table_simps:
  "CreateFile table_os path a b c d opened = (Inr (fresh_handle opened), fresh_handle opened # opened)"
  "CloseHandle table_os h opened =
     (if h \<in> set opened then (None, removeAll h opened) else (Some ERROR_INVALID_HANDLE, opened))"
  "ReadFile table_os h p opened =
     on_handle h opened (p, of_nat (length p), None) (p, 0, Some ERROR_INVALID_HANDLE)"
  "WriteFile table_os h p opened =
     on_handle h opened (of_nat (length p), None) (0, Some ERROR_INVALID_HANDLE)"
  "GetCommState table_os h dcb opened =
     on_handle h opened (left_dcb, None) (dcb, Some ERROR_INVALID_HANDLE)"
  "SetCommState table_os h dcb opened = on_handle h opened None (Some ERROR_INVALID_HANDLE)"
  "SetCommTimeouts table_os h ts opened = on_handle h opened None (Some ERROR_INVALID_HANDLE)"
  "SetCommBreak table_os h opened = on_handle h opened None (Some ERROR_INVALID_HANDLE)"
  "ClearCommBreak table_os h opened = on_handle h opened None (Some ERROR_INVALID_HANDLE)"
  "Sleep table_os dur opened = opened"
  by (simp_all add: table_os_def)

lemma fresh_handle_simps: "fresh_handle [] = 1" "fresh_handle [1] = 2"
  by (simp_all add: fresh_handle_def upt_rec)

text \<open>C7, as the code has it. The port holds the handle value and nothing else: there
  is no open or closed state in it, and \<^verbatim>\<open>Close\<close> only passes the value to
  \<^verbatim>\<open>CloseHandle\<close>. Whatever happened before, an operation passes the handle value to
  the platform and fails when the platform rejects it: \<^verbatim>\<open>Read\<close> returns an error when
  its \<^verbatim>\<open>ReadFile\<close> fails, \<^verbatim>\<open>Write\<close> returns an error exactly when \<^verbatim>\<open>WriteFile\<close>
  does, \<^verbatim>\<open>SetMode\<close> fails when \<^verbatim>\<open>GetCommState\<close> fails, \<^verbatim>\<open>SendBreak\<close> fails when
  \<^verbatim>\<open>SetCommBreak\<close> fails.\<close>

theorem stale_handle_outcomes:
  "(snd (snd (fst (ReadFile os (handle port) p w))) \<noteq> None \<longrightarrow>
      (\<exists>r w'. Read os port p w = Some (r, w') \<and> snd (snd r) \<noteq> None))
   \<and> (snd (fst (Write os port p w)) = None) = (snd (fst (WriteFile os (handle port) p w)) = None)
   \<and> (snd (fst (GetCommState os (handle port) DCB_zero w)) \<noteq> None \<longrightarrow>
        fst (SetMode os port mode w) = Some (SerialPortError ERROR_INVALID_SERIAL_PORT))
   \<and> (fst (SetCommBreak os (handle port) w) \<noteq> None \<longrightarrow>
        fst (SendBreak os port breakTime w) = Some (SerialPortError ERROR_INVALID_SERIAL_PORT))
   \<and> fst (Close os port w) = map_option RawErrno (fst (CloseHandle os (handle port) w))"
proof -
  have r: "\<exists>r w'. Read os port p w = Some (r, w') \<and> snd (snd r) \<noteq> None"
    if "snd (snd (fst (ReadFile os (handle port) p w))) \<noteq> None"
    using that unfolding Read_def
    by (subst Read_loop.simps) (auto split: prod.splits option.splits)
  have wr: "(snd (fst (Write os port p w)) = None) = (snd (fst (WriteFile os (handle port) p w)) = None)"
    by (simp add: Write_def split: prod.split)
  have m: "fst (SetMode os port mode w) = Some (SerialPortError ERROR_INVALID_SERIAL_PORT)"
    if "snd (fst (GetCommState os (handle port) DCB_zero w)) \<noteq> None"
    using that by (auto simp add: SetMode_def Close_def split: prod.splits option.splits)
  have b: "fst (SendBreak os port breakTime w) = Some (SerialPortError ERROR_INVALID_SERIAL_PORT)"
    if "fst (SetCommBreak os (handle port) w) \<noteq> None"
    using that by (auto simp add: SendBreak_def Close_def split: prod.splits option.splits)
  have c: "fst (Close os port w) = map_option RawErrno (fst (CloseHandle os (handle port) w))"
    by (simp add: Close_def split: prod.split)
  show ?thesis
    using r wr m b c by blast
qed

text \<open>On the platform with a handle table, with no handle open: every operation on a
  port of handle 1 fails.\<close>

theorem stale_handle_outcomes_witness:
  "snd (snd (fst (ReadFile table_os (handle \<lparr>handle = 1\<rparr>) [0, 0] []))) = Some ERROR_INVALID_HANDLE
   \<and> Read table_os \<lparr>handle = 1\<rparr> [0, 0] [] = Some (([0, 0], 0, Some (RawErrno ERROR_INVALID_HANDLE)), [])
   \<and> snd (fst (Write table_os \<lparr>handle = 1\<rparr> [0, 0] [])) = Some (RawErrno ERROR_INVALID_HANDLE)
   \<and> snd (fst (GetCommState table_os (handle \<lparr>handle = 1\<rparr>) DCB_zero [])) = Some ERROR_INVALID_HANDLE
   \<and> fst (SetMode table_os \<lparr>handle = 1\<rparr> a_mode []) = Some (SerialPortError ERROR_INVALID_SERIAL_PORT)
   \<and> fst (SetCommBreak table_os (handle \<lparr>handle = 1\<rparr>) []) = Some ERROR_INVALID_HANDLE
   \<and> fst (SendBreak table_os \<lparr>handle = 1\<rparr> 250 []) = Some (SerialPortError ERROR_INVALID_SERIAL_PORT)"
  using stale_handle_outcomes [where os = table_os and port = "\<lparr>handle = 1\<rparr>" and p = "[0, 0]"
      and w = "[]" and mode = a_mode and breakTime = 250]
  by (simp add: table_simps on_handle_def Read_def Read_loop.simps Write_def int_of_u32_def)

text \<open>The claim as it is written fails once the platform has given the value of the
  closed handle to another open: COM1 is opened (handle 1) and closed, COM2 is opened and
  gets handle 1 again, and the closed port of COM1 then writes and reads with success, on
  the device of COM2.\<close>

theorem stale_handle_counterexample:
  "OpenPort table_os ''COM1'' a_mode [] = ((Some \<lparr>handle = 1\<rparr>, None), [1])
   \<and> Close table_os \<lparr>handle = 1\<rparr> [1] = (None, [])
   \<and> OpenPort table_os ''COM2'' a_mode [] = ((Some \<lparr>handle = 1\<rparr>, None), [1])
   \<and> Write table_os \<lparr>handle = 1\<rparr> [0x41, 0x42] [1] = ((2, None), [1])
   \<and> Read table_os \<lparr>handle = 1\<rparr> [0, 0] [1] = Some (([0, 0], 2, None), [1])"
  by (simp add: OpenPort_def SetMode_def Close_def Write_def Read_def Read_loop.simps table_simps
      on_handle_def fresh_handle_simps UTF16PtrFromString_def device_path_def backslash_def
      int_of_u32_def Let_def)

section \<open>Listing the ports\<close>










end
